theory Spec2Isabelle
  imports Main "HOL-Library.Word" "HOL-Library.AList"
begin

text \<open>
  A model of the protocol and bridging engine of the browser extension: the frame codec,
  the endpoint session and the session manager of \<^verbatim>\<open>src/zap-client.ts\<close>, and the command
  router of \<^verbatim>\<open>src/cdp-bridge-server.ts\<close>. The code is event-driven on one thread: every
  method call, socket event and timer callback runs to its end (or to its first
  \<^verbatim>\<open>await\<close>) before the next, so each is a function from the state before to the state
  after, and a run of the program is a sequence of them.
\<close>

section \<open>JavaScript values and the platform\<close>

text \<open>
  The sources are TypeScript run by a JavaScript engine. Payloads, parameter bags and
  replies are untyped at run time (\<^verbatim>\<open>unknown\<close>, \<^verbatim>\<open>any\<close>), so they are modelled by
  one datatype of JavaScript values. Numbers are restricted to integers (exact in a
  double below \<open>2 ^ 53\<close>); an object is the list of its own properties in insertion
  order.
\<close>

type_synonym byte = "8 word"

datatype jsval =
    JUndefined
  | JNull
  | JBool bool
  | JNum int
  | JStr string
  | JArr "jsval list"
  | JObj "(string \<times> jsval) list"

text \<open>
  The code of a \<^verbatim>\<open>ZapError\<close> is \<^verbatim>\<open>number | string\<close>.
\<close>

datatype err_code = NumCode int | StrCode string

text \<open>
  Everything the modelled code throws or rejects with: the built-in errors and the
  classes of \<^verbatim>\<open>zap-client.ts\<close> (\<^verbatim>\<open>ZapError(message, code)\<close>, \<^verbatim>\<open>ConnectionError(message)\<close>,
  \<^verbatim>\<open>TimeoutError(message)\<close>).
\<close>

datatype exn =
    Error string
  | SyntaxError
  | TypeError
  | RangeError
  | ZapError string err_code
  | ConnectionError string
  | TimeoutError string

fun exn_name :: "exn \<Rightarrow> string" where
  "exn_name (Error m) = ''Error''"
| "exn_name SyntaxError = ''SyntaxError''"
| "exn_name TypeError = ''TypeError''"
| "exn_name RangeError = ''RangeError''"
| "exn_name (ZapError m c) = ''ZapError''"
| "exn_name (ConnectionError m) = ''ConnectionError''"
| "exn_name (TimeoutError m) = ''TimeoutError''"

text \<open>
  The message of an error. The engine's own errors carry an engine-specific text, which
  the model leaves empty.
\<close>

fun exn_message :: "exn \<Rightarrow> string" where
  "exn_message (Error m) = m"
| "exn_message SyntaxError = []"
| "exn_message TypeError = []"
| "exn_message RangeError = []"
| "exn_message (ZapError m c) = m"
| "exn_message (ConnectionError m) = m"
| "exn_message (TimeoutError m) = m"

text \<open>
  The \<^verbatim>\<open>code\<close> field: the constructor argument of a \<^verbatim>\<open>ZapError\<close>, the constants
  \<^verbatim>\<open>'CONNECTION_ERROR'\<close> and \<^verbatim>\<open>'TIMEOUT_ERROR'\<close> of its subclasses; other errors have none.
\<close>

fun exn_code :: "exn \<Rightarrow> err_code option" where
  "exn_code (ZapError m c) = Some c"
| "exn_code (ConnectionError m) = Some (StrCode ''CONNECTION_ERROR'')"
| "exn_code (TimeoutError m) = Some (StrCode ''TIMEOUT_ERROR'')"
| "exn_code e = None"

text \<open>
  \<^verbatim>\<open>`${error}`\<close>: \<^verbatim>\<open>Error.prototype.toString\<close>, the name, then the message when there is one.
\<close>

definition exn_toString :: "exn \<Rightarrow> string" where
  "exn_toString e =
     (if exn_message e = [] then exn_name e else exn_name e @ '': '' @ exn_message e)"

text \<open>Truthiness, \<^verbatim>\<open>a || b\<close> and \<^verbatim>\<open>a ?? b\<close>.\<close>

fun truthy :: "jsval \<Rightarrow> bool" where
  "truthy JUndefined = False"
| "truthy JNull = False"
| "truthy (JBool b) = b"
| "truthy (JNum n) = (n \<noteq> 0)"
| "truthy (JStr s) = (s \<noteq> [])"
| "truthy (JArr xs) = True"
| "truthy (JObj kvs) = True"

definition js_or :: "jsval \<Rightarrow> jsval \<Rightarrow> jsval" where
  "js_or a b = (if truthy a then a else b)"

fun nullish :: "jsval \<Rightarrow> bool" where
  "nullish JUndefined = True"
| "nullish JNull = True"
| "nullish v = False"

definition js_coalesce :: "jsval \<Rightarrow> jsval \<Rightarrow> jsval" where
  "js_coalesce a b = (if nullish a then b else a)"

text \<open>
  Reading the property \<open>k\<close> of an object: its value, or \<^verbatim>\<open>undefined\<close> when the object
  has no such property.
\<close>

definition getprop :: "(string \<times> jsval) list \<Rightarrow> string \<Rightarrow> jsval" where
  "getprop kvs k = (case map_of kvs k of Some v \<Rightarrow> v | None \<Rightarrow> JUndefined)"

text \<open>
  \<^verbatim>\<open>v.k\<close> on any value. Reading a property of \<^verbatim>\<open>null\<close> or \<^verbatim>\<open>undefined\<close> throws a
  \<^verbatim>\<open>TypeError\<close>. The sources read only the names \<^verbatim>\<open>t\<close>, \<^verbatim>\<open>d\<close>, \<^verbatim>\<open>data\<close>, \<^verbatim>\<open>type\<close>,
  \<^verbatim>\<open>id\<close>, \<^verbatim>\<open>error\<close>, \<^verbatim>\<open>result\<close>, \<^verbatim>\<open>message\<close> and \<^verbatim>\<open>capabilities\<close> from untyped values;
  none of them is a property of an array, a string, a number or a boolean or of their
  prototypes, so there the read gives \<^verbatim>\<open>undefined\<close>.
\<close>

definition js_member :: "jsval \<Rightarrow> string \<Rightarrow> jsval" where
  "js_member v k = (case v of JObj kvs \<Rightarrow> getprop kvs k | _ \<Rightarrow> JUndefined)"

definition js_get :: "jsval \<Rightarrow> string \<Rightarrow> exn + jsval" where
  "js_get v k = (if nullish v then Inl TypeError else Inr (js_member v k))"

text \<open>
  Decimal digits of a number, and \<^verbatim>\<open>String(v)\<close>: an array is its elements joined by
  commas, \<^verbatim>\<open>null\<close> and \<^verbatim>\<open>undefined\<close> among them as the empty string.
\<close>

definition digit_char :: "nat \<Rightarrow> char" where
  "digit_char d = ''0123456789abcdef'' ! d"

fun show_nat :: "nat \<Rightarrow> string" where
  "show_nat n = (if n < 10 then [digit_char n] else show_nat (n div 10) @ [digit_char (n mod 10)])"

definition show_int :: "int \<Rightarrow> string" where
  "show_int i = (if i < 0 then CHR ''-'' # show_nat (nat (- i)) else show_nat (nat i))"

fun commas :: "string list \<Rightarrow> string" where
  "commas [] = []"
| "commas [x] = x"
| "commas (x # y # ys) = x @ CHR '','' # commas (y # ys)"

fun js_String :: "jsval \<Rightarrow> string"
  and js_join :: "jsval list \<Rightarrow> string list" where
  "js_String JUndefined = ''undefined''"
| "js_String JNull = ''null''"
| "js_String (JBool b) = (if b then ''true'' else ''false'')"
| "js_String (JNum n) = show_int n"
| "js_String (JStr s) = s"
| "js_String (JArr xs) = commas (js_join xs)"
| "js_String (JObj kvs) = ''[object Object]''"
| "js_join [] = []"
| "js_join (x # xs) = (if nullish x then [] else js_String x) # js_join xs"

text \<open>\<^verbatim>\<open>new Error(v)\<close> for an untyped \<open>v\<close>: no message when \<open>v\<close> is \<^verbatim>\<open>undefined\<close>.\<close>

definition new_Error :: "jsval \<Rightarrow> exn" where
  "new_Error v = Error (if v = JUndefined then [] else js_String v)"

text \<open>
  What the sources call of the platform, taken as parameters: the model fixes none of
  them.
  \<^item> \<^verbatim>\<open>JSON.stringify(v)\<close>: a string, or \<^verbatim>\<open>undefined\<close> (\<open>None\<close>) when \<open>v\<close> has no JSON text;
  \<^item> \<^verbatim>\<open>JSON.parse(s)\<close>: a value, or a thrown \<^verbatim>\<open>SyntaxError\<close> (\<open>None\<close>);
  \<^item> \<^verbatim>\<open>new TextEncoder().encode(s)\<close> and \<^verbatim>\<open>new TextDecoder().decode(bytes)\<close> (UTF-8);
  \<^item> \<^verbatim>\<open>Buffer.from(v, 'base64')\<close>: the decoded bytes, or a thrown error;
  \<^item> \<^verbatim>\<open>fs.writeFileSync(file, bytes)\<close> on a file system \<open>'fs\<close>: the file system after the
    write, or a thrown error;
  \<^item> \<^verbatim>\<open>new WebSocket(url)\<close>: \<open>None\<close> when the socket is created, the error when the
    constructor throws.
\<close>

record 'fs runtime =
  JSON_stringify :: "jsval \<Rightarrow> string option"
  JSON_parse :: "string \<Rightarrow> jsval option"
  TextEncoder_encode :: "string \<Rightarrow> byte list"
  TextDecoder_decode :: "byte list \<Rightarrow> string"
  Buffer_from_base64 :: "jsval \<Rightarrow> exn + byte list"
  fs_writeFileSync :: "'fs \<Rightarrow> jsval \<Rightarrow> byte list \<Rightarrow> exn + 'fs"
  WebSocket_new :: "string \<Rightarrow> exn option"

section \<open>Frame codec (\<^verbatim>\<open>zap-client.ts\<close>, class \<^verbatim>\<open>Protocol\<close>)\<close>

definition ZAP_MAGIC :: "byte list" where
  "ZAP_MAGIC = [0x5a, 0x41, 0x50, 0x01]"

datatype MessageType = Handshake | HandshakeResponse | Request | Response | Stream | Ping | Pong

text \<open>The numeric value of an enum member, which is what the engine holds.\<close>

fun MessageType_value :: "MessageType \<Rightarrow> nat" where
  "MessageType_value Handshake = 1"
| "MessageType_value HandshakeResponse = 2"
| "MessageType_value Request = 3"
| "MessageType_value Response = 4"
| "MessageType_value Stream = 5"
| "MessageType_value Ping = 6"
| "MessageType_value Pong = 7"

text \<open>\<^verbatim>\<open>ArrayBuffer | string\<close>: what \<^verbatim>\<open>encode\<close> returns and \<^verbatim>\<open>decode\<close> takes.\<close>

datatype wire = Binary "byte list" | Text string

record Protocol =
  binary :: bool

text \<open>The result of \<^verbatim>\<open>decode\<close>: \<^verbatim>\<open>{ type, payload }\<close>, neither validated.\<close>

record frame =
  ftype :: jsval
  payload :: jsval

text \<open>\<^verbatim>\<open>{ t: type, d: data }\<close>, the record a text frame is the JSON text of.\<close>

definition envelope :: "MessageType \<Rightarrow> jsval \<Rightarrow> jsval" where
  "envelope ty data = JObj [(''t'', JNum (int (MessageType_value ty))), (''d'', data)]"

text \<open>
  \<^verbatim>\<open>encode(type, data)\<close>. In text mode the frame is the JSON text of \<^verbatim>\<open>{ t: type, d: data }\<close>.
  In binary mode it is the magic, the type in one byte (\<^verbatim>\<open>setUint8\<close> keeps the low eight
  bits) and the UTF-8 bytes of the JSON text of \<^verbatim>\<open>data\<close>; \<^verbatim>\<open>encode(undefined)\<close> of the
  encoder gives no bytes.
\<close>

definition encode :: "'fs runtime \<Rightarrow> Protocol \<Rightarrow> MessageType \<Rightarrow> jsval \<Rightarrow> wire option" where
  "encode rt p ty data =
     (if \<not> binary p then
        map_option Text (JSON_stringify rt (envelope ty data))
      else
        let json = JSON_stringify rt data;
            jsonBytes = (case json of None \<Rightarrow> [] | Some s \<Rightarrow> TextEncoder_encode rt s)
        in Some (Binary (ZAP_MAGIC @ [of_nat (MessageType_value ty)] @ jsonBytes)))"

text \<open>\<^verbatim>\<open>arr[i]\<close> on a typed array: \<^verbatim>\<open>undefined\<close> (\<open>None\<close>) out of range.\<close>

definition index :: "'a list \<Rightarrow> nat \<Rightarrow> 'a option" where
  "index xs i = (if i < length xs then Some (xs ! i) else None)"

text \<open>
  The loop \<^verbatim>\<open>for (let i = 0; i < 4; i++) if (arr[i] !== ZAP_MAGIC[i]) throw ...\<close>, from \<open>i\<close>
  on: the error it throws, or \<open>None\<close> when it runs to its end.
\<close>

function verify_magic :: "byte list \<Rightarrow> nat \<Rightarrow> exn option" where
  "verify_magic arr i =
     (if i < 4 then
        (if index arr i \<noteq> index ZAP_MAGIC i then Some (Error ''Invalid ZAP message'')
         else verify_magic arr (i + 1))
      else None)"
  by pat_completeness auto
termination
  by (relation "measure (\<lambda>(arr, i). 4 - i)") auto

declare verify_magic.simps [simp del]

text \<open>
  \<^verbatim>\<open>decode(data)\<close>. The branch is chosen by the type of \<open>data\<close>, not by the mode of the
  protocol. \<^verbatim>\<open>getUint8(4)\<close> throws a \<^verbatim>\<open>RangeError\<close> on a buffer of four bytes.
\<close>

definition decode :: "'fs runtime \<Rightarrow> wire \<Rightarrow> exn + frame" where
  "decode rt data =
     (case data of
        Text s \<Rightarrow>
          (case JSON_parse rt s of
             None \<Rightarrow> Inl SyntaxError
           | Some parsed \<Rightarrow>
               (case js_get parsed ''t'' of
                  Inl e \<Rightarrow> Inl e
                | Inr t \<Rightarrow>
                    (case js_get parsed ''d'' of
                       Inl e \<Rightarrow> Inl e
                     | Inr d \<Rightarrow> Inr \<lparr>ftype = t, payload = d\<rparr>)))
      | Binary arr \<Rightarrow>
          (case verify_magic arr 0 of
             Some e \<Rightarrow> Inl e
           | None \<Rightarrow>
               (case index arr 4 of
                  None \<Rightarrow> Inl RangeError
                | Some ty \<Rightarrow>
                    let jsonBytes = drop 5 arr;
                        json = TextDecoder_decode rt jsonBytes
                    in (case JSON_parse rt json of
                          None \<Rightarrow> Inl SyntaxError
                        | Some parsed \<Rightarrow> Inr \<lparr>ftype = JNum (uint ty), payload = parsed\<rparr>))))"

text \<open>
  \<^verbatim>\<open>p.decode(p.encode(type, data))\<close>; \<^verbatim>\<open>decode(undefined)\<close> throws a \<^verbatim>\<open>TypeError\<close> at
  \<^verbatim>\<open>new DataView(undefined)\<close>.
\<close>

definition decode_encode :: "'fs runtime \<Rightarrow> Protocol \<Rightarrow> MessageType \<Rightarrow> jsval \<Rightarrow> exn + frame" where
  "decode_encode rt p ty data =
     (case encode rt p ty data of None \<Rightarrow> Inl TypeError | Some w \<Rightarrow> decode rt w)"

section \<open>Endpoint session (\<^verbatim>\<open>zap-client.ts\<close>, class \<^verbatim>\<open>ZapClient\<close>)\<close>

datatype ClientType = McpServer | McpClient | BrowserExtension | Agent

fun ClientType_value :: "ClientType \<Rightarrow> nat" where
  "ClientType_value McpServer = 0"
| "ClientType_value McpClient = 1"
| "ClientType_value BrowserExtension = 2"
| "ClientType_value Agent = 3"

text \<open>\<^verbatim>\<open>'disconnected' | 'connecting' | 'connected' | 'reconnecting'\<close>\<close>

datatype ConnectionState = Disconnected | Connecting | Connected | Reconnecting

text \<open>\<^verbatim>\<open>WebSocket.readyState\<close>\<close>

datatype ReadyState = CONNECTING | OPEN | CLOSING | CLOSED

text \<open>
  The interfaces \<^verbatim>\<open>ZapResponse\<close> and \<^verbatim>\<open>HandshakeResponse\<close>. An optional field that is
  absent is \<open>None\<close> (or \<^verbatim>\<open>undefined\<close> for \<^verbatim>\<open>result\<close> and \<^verbatim>\<open>data\<close>, of type \<^verbatim>\<open>unknown\<close>).
\<close>

record ResponseError =
  error_code :: err_code
  error_message :: string
  error_data :: jsval

record ZapResponse =
  response_id :: string
  response_result :: jsval
  response_error :: "ResponseError option"

record HandshakeReply =
  accepted :: bool
  reply_clientId :: string
  serverVersion :: string
  reply_capabilities :: "string list"
  reply_error :: "string option"

text \<open>
  What \<^verbatim>\<open>ws.onmessage\<close> works on: the frame \<^verbatim>\<open>decode\<close> returned, its payload cast
  (unchecked) to the interface of its type. The handler acts on three frame types and
  ignores every other.
\<close>

datatype inbound =
    HandshakeResponseFrame HandshakeReply
  | ResponseFrame ZapResponse
  | StreamFrame jsval
  | OtherFrame

text \<open>\<^verbatim>\<open>Required<ZapClientOptions>\<close>, and the defaults of the constructor.\<close>

record ZapClientOptions =
  clientId :: string
  clientType :: ClientType
  capabilities :: "string list"
  timeout :: int
  autoReconnect :: bool
  reconnectInterval :: int
  maxReconnectAttempts :: int
  binary_frames :: bool

definition default_options :: "string \<Rightarrow> ZapClientOptions" where
  "default_options cid =
     \<lparr>clientId = cid, clientType = McpClient, capabilities = [''tools'', ''browser'', ''mcp''],
      timeout = 30000, autoReconnect = True, reconnectInterval = 1000,
      maxReconnectAttempts = 5, binary_frames = True\<rparr>"

text \<open>
  Promises, timers and sockets are named by handles, numbered from 1 in the order of
  their creation. The callback of a timer is one of the three closures the class passes
  to \<^verbatim>\<open>setTimeout\<close>: the connection timer of \<^verbatim>\<open>connect\<close> (with the promise it rejects), the
  timer of a request (with the id it deletes, the method it names and the promise it
  rejects), and the reconnection attempt of \<^verbatim>\<open>scheduleReconnect\<close>.
\<close>

datatype timer_callback =
    ConnectTimeout nat
  | RequestTimeout string string nat
  | ReconnectAttempt

text \<open>
  An entry of \<^verbatim>\<open>pendingRequests\<close>: \<^verbatim>\<open>{ resolve, reject, timeout }\<close>, the first two being the
  two functions of one promise.
\<close>

record pending =
  pending_promise :: nat
  pending_timeout :: nat

text \<open>
  A \<^verbatim>\<open>WebSocket\<close> created by \<^verbatim>\<open>connect\<close>: its ready state, and what its handlers close
  over, the timer and the promise of the call that created it.
\<close>

record socket =
  readyState :: ReadyState
  socket_timeout :: nat
  socket_promise :: nat

text \<open>
  What \<^verbatim>\<open>emit\<close> hands to the handlers: \<^verbatim>\<open>'connect'\<close> with the handshake response,
  \<^verbatim>\<open>'disconnect'\<close> with \<^verbatim>\<open>{ wasConnected }\<close>, \<^verbatim>\<open>'error'\<close> with an error, \<^verbatim>\<open>'reconnect'\<close> with
  \<^verbatim>\<open>{ attempts }\<close>, \<^verbatim>\<open>'stream'\<close> with a payload.
\<close>

datatype event =
    ConnectEvent HandshakeReply
  | DisconnectEvent bool
  | ErrorEvent exn
  | ReconnectEvent nat
  | StreamEvent jsval

text \<open>
  The fields of the class, then what it acts on: the sockets it created, the armed
  timers (handle, delay, callback), the calls that settle promises, the
  promises of \<^verbatim>\<open>connect\<close> calls a reconnection attempt awaits, the events emitted and
  the frames handed to \<^verbatim>\<open>ws.send\<close>. \<^verbatim>\<open>pendingRequests\<close> is a \<^verbatim>\<open>Map\<close>: a list of entries
  in insertion order, with one entry per key.
\<close>

record ZapClient =
  ws :: "nat option"
  options :: ZapClientOptions
  state :: ConnectionState
  serverInfo :: "HandshakeReply option"
  pendingRequests :: "(string \<times> pending) list"
  reconnectAttempts :: nat
  reconnectTimeout :: "nat option"
  url :: "string option"
  sockets :: "(nat \<times> socket) list"
  timers :: "(nat \<times> int \<times> timer_callback) list"
  promises :: "(nat \<times> (exn + jsval)) list"
  awaited_by_reconnect :: "nat list"
  emitted :: "event list"
  sent :: "(nat \<times> wire option) list"
  next_handle :: nat

definition new_ZapClient :: "ZapClientOptions \<Rightarrow> ZapClient" where
  "new_ZapClient opts =
     \<lparr>ws = None, options = opts, state = Disconnected, serverInfo = None,
      pendingRequests = [], reconnectAttempts = 0, reconnectTimeout = None, url = None,
      sockets = [], timers = [], promises = [], awaited_by_reconnect = [], emitted = [],
      sent = [], next_handle = 1\<rparr>"

definition fresh :: "ZapClient \<Rightarrow> nat \<times> ZapClient" where
  "fresh c = (next_handle c, c\<lparr>next_handle := next_handle c + 1\<rparr>)"

definition setTimeout :: "timer_callback \<Rightarrow> int \<Rightarrow> ZapClient \<Rightarrow> nat \<times> ZapClient" where
  "setTimeout cb delay c =
     (let (h, c1) = fresh c in (h, c1\<lparr>timers := timers c1 @ [(h, delay, cb)]\<rparr>))"

definition clearTimeout :: "nat \<Rightarrow> ZapClient \<Rightarrow> ZapClient" where
  "clearTimeout h c = c\<lparr>timers := filter (\<lambda>t. fst t \<noteq> h) (timers c)\<rparr>"

text \<open>\<^verbatim>\<open>emit\<close>: the handlers run, and what they throw is caught and logged.\<close>

definition emit :: "event \<Rightarrow> ZapClient \<Rightarrow> ZapClient" where
  "emit ev c = c\<lparr>emitted := emitted c @ [ev]\<rparr>"

text \<open>
  Settling a promise. \<open>promises\<close> lists every call of a promise's \<^verbatim>\<open>resolve\<close> or \<^verbatim>\<open>reject\<close>,
  in order; the first call for a promise decides its outcome, a later one changes
  nothing. A reconnection attempt awaits the promise of its \<^verbatim>\<open>connect\<close> call: when that
  promise is fulfilled the attempt goes on to \<^verbatim>\<open>emit('reconnect', { attempts:
  this.reconnectAttempts })\<close>, and when it is rejected the attempt's empty \<^verbatim>\<open>catch\<close> ends
  it. (\<^verbatim>\<open>resolve()\<close> is the last statement of the handler that calls it, so the
  continuation runs on the state the handler leaves.)
\<close>

definition outcome :: "ZapClient \<Rightarrow> nat \<Rightarrow> (exn + jsval) option" where
  "outcome c p = map_of (promises c) p"

definition settled :: "ZapClient \<Rightarrow> nat \<Rightarrow> bool" where
  "settled c p = (outcome c p \<noteq> None)"

definition resolve :: "nat \<Rightarrow> jsval \<Rightarrow> ZapClient \<Rightarrow> ZapClient" where
  "resolve p v c =
     (let c1 = c\<lparr>promises := promises c @ [(p, Inr v)]\<rparr>
      in if \<not> settled c p \<and> p \<in> set (awaited_by_reconnect c)
         then emit (ReconnectEvent (reconnectAttempts c1))
                (c1\<lparr>awaited_by_reconnect := removeAll p (awaited_by_reconnect c1)\<rparr>)
         else c1)"

definition reject :: "nat \<Rightarrow> exn \<Rightarrow> ZapClient \<Rightarrow> ZapClient" where
  "reject p e c =
     c\<lparr>promises := promises c @ [(p, Inl e)],
       awaited_by_reconnect := removeAll p (awaited_by_reconnect c)\<rparr>"

definition socket_state :: "ZapClient \<Rightarrow> nat \<Rightarrow> ReadyState option" where
  "socket_state c k = map_option readyState (map_of (sockets c) k)"

definition set_readyState :: "nat \<Rightarrow> ReadyState \<Rightarrow> ZapClient \<Rightarrow> ZapClient" where
  "set_readyState k r c =
     c\<lparr>sockets := map (\<lambda>(k', s). if k' = k then (k', s\<lparr>readyState := r\<rparr>) else (k', s)) (sockets c)\<rparr>"

text \<open>\<^verbatim>\<open>get isConnected\<close>\<close>

definition isConnected :: "ZapClient \<Rightarrow> bool" where
  "isConnected c =
     (state c = Connected \<and> (case ws c of None \<Rightarrow> False | Some k \<Rightarrow> socket_state c k = Some OPEN))"

text \<open>\<^verbatim>\<open>send(data)\<close>: on the current socket, and only when it is open.\<close>

definition send :: "wire option \<Rightarrow> ZapClient \<Rightarrow> ZapClient" where
  "send data c =
     (case ws c of
        None \<Rightarrow> c
      | Some k \<Rightarrow> if socket_state c k = Some OPEN then c\<lparr>sent := sent c @ [(k, data)]\<rparr> else c)"

definition protocol :: "ZapClient \<Rightarrow> Protocol" where
  "protocol c = \<lparr>binary = binary_frames (options c)\<rparr>"

text \<open>
  \<^verbatim>\<open>connect(url)\<close>: the error an already connected or connecting client throws, or the
  promise the call returns. The promise is rejected at once when the \<^verbatim>\<open>WebSocket\<close>
  constructor throws.
\<close>

definition connect :: "'fs runtime \<Rightarrow> string \<Rightarrow> ZapClient \<Rightarrow> (exn + nat) \<times> ZapClient" where
  "connect rt u c =
     (if state c = Connected \<or> state c = Connecting then
        (Inl (ConnectionError ''Already connected or connecting''), c)
      else
        let c1 = c\<lparr>url := Some u, state := Connecting\<rparr>;
            (p, c2) = fresh c1;
            (t, c3) = setTimeout (ConnectTimeout p) (timeout (options c2)) c2
        in (case WebSocket_new rt u of
              Some e \<Rightarrow>
                (Inr p,
                 reject p (ConnectionError (''Failed to connect: '' @ exn_toString e))
                   ((clearTimeout t c3)\<lparr>state := Disconnected\<rparr>))
            | None \<Rightarrow>
                let (k, c4) = fresh c3
                in (Inr p,
                    c4\<lparr>ws := Some k,
                       sockets := sockets c4 @
                         [(k, \<lparr>readyState = CONNECTING, socket_timeout = t, socket_promise = p\<rparr>)]\<rparr>)))"

text \<open>The \<^verbatim>\<open>Handshake\<close> that \<^verbatim>\<open>ws.onopen\<close> sends.\<close>

definition handshake :: "ZapClient \<Rightarrow> jsval" where
  "handshake c =
     JObj [(''version'', JStr ''1.0.0''),
           (''clientType'', JNum (int (ClientType_value (clientType (options c))))),
           (''clientId'', JStr (clientId (options c))),
           (''capabilities'', JArr (map JStr (capabilities (options c))))]"

text \<open>
  \<^verbatim>\<open>handleResponse(response)\<close>. The class's \<^verbatim>\<open>ZapError\<close> is built from the message and
  the code of the response's error; its \<^verbatim>\<open>data\<close> is not passed on.
\<close>

definition handleResponse :: "ZapResponse \<Rightarrow> ZapClient \<Rightarrow> ZapClient" where
  "handleResponse response c =
     (case map_of (pendingRequests c) (response_id response) of
        None \<Rightarrow> c
      | Some pending \<Rightarrow>
          let c1 = clearTimeout (pending_timeout pending) c;
              c2 = c1\<lparr>pendingRequests := AList.delete (response_id response) (pendingRequests c1)\<rparr>
          in (case response_error response of
                Some err \<Rightarrow>
                  reject (pending_promise pending) (ZapError (error_message err) (error_code err)) c2
              | None \<Rightarrow> resolve (pending_promise pending) (response_result response) c2))"

text \<open>\<^verbatim>\<open>scheduleReconnect()\<close>\<close>

definition scheduleReconnect :: "ZapClient \<Rightarrow> ZapClient" where
  "scheduleReconnect c =
     (if int (reconnectAttempts c) \<ge> maxReconnectAttempts (options c) then
        emit (ErrorEvent (ConnectionError ''Max reconnect attempts reached'')) c
      else
        let c1 = c\<lparr>state := Reconnecting, reconnectAttempts := reconnectAttempts c + 1\<rparr>;
            delay = reconnectInterval (options c1) * 2 ^ (reconnectAttempts c1 - 1);
            (t, c2) = setTimeout ReconnectAttempt delay c1
        in c2\<lparr>reconnectTimeout := Some t\<rparr>)"

text \<open>
  The four handlers \<^verbatim>\<open>connect\<close> installs on the socket \<open>k\<close> it creates. An event of a
  socket the client never created does not occur. The socket is open when \<^verbatim>\<open>onopen\<close>
  runs and closed when \<^verbatim>\<open>onclose\<close> runs.
\<close>

definition ws_onopen :: "'fs runtime \<Rightarrow> nat \<Rightarrow> ZapClient \<Rightarrow> ZapClient" where
  "ws_onopen rt k c =
     (case map_of (sockets c) k of
        None \<Rightarrow> c
      | Some s \<Rightarrow>
          let c1 = set_readyState k OPEN c
          in send (encode rt (protocol c1) Handshake (handshake c1)) c1)"

definition ws_onmessage :: "nat \<Rightarrow> inbound \<Rightarrow> ZapClient \<Rightarrow> ZapClient" where
  "ws_onmessage k msg c =
     (case map_of (sockets c) k of
        None \<Rightarrow> c
      | Some s \<Rightarrow>
          (case msg of
             HandshakeResponseFrame response \<Rightarrow>
               let c1 = clearTimeout (socket_timeout s) c
               in if accepted response then
                    resolve (socket_promise s) JUndefined
                      (emit (ConnectEvent response)
                         (c1\<lparr>serverInfo := Some response, state := Connected,
                             reconnectAttempts := 0\<rparr>))
                  else
                    reject (socket_promise s)
                      (ConnectionError
                         (case reply_error response of
                            Some m \<Rightarrow> m
                          | None \<Rightarrow> ''Connection rejected''))
                      (c1\<lparr>state := Disconnected\<rparr>)
           | ResponseFrame response \<Rightarrow> handleResponse response c
           | StreamFrame p \<Rightarrow> emit (StreamEvent p) c
           | OtherFrame \<Rightarrow> c))"

definition ws_onerror :: "nat \<Rightarrow> ZapClient \<Rightarrow> ZapClient" where
  "ws_onerror k c =
     (case map_of (sockets c) k of
        None \<Rightarrow> c
      | Some s \<Rightarrow>
          let c1 = clearTimeout (socket_timeout s) c;
              c2 = emit (ErrorEvent (ConnectionError ''WebSocket error'')) c1
          in if state c2 = Connecting then
               reject (socket_promise s) (ConnectionError ''WebSocket error'')
                 (c2\<lparr>state := Disconnected\<rparr>)
             else c2)"

definition ws_onclose :: "nat \<Rightarrow> ZapClient \<Rightarrow> ZapClient" where
  "ws_onclose k c =
     (case map_of (sockets c) k of
        None \<Rightarrow> c
      | Some s \<Rightarrow>
          let c1 = set_readyState k CLOSED c;
              wasConnected = (state c1 = Connected);
              c2 = emit (DisconnectEvent wasConnected) (c1\<lparr>state := Disconnected\<rparr>)
          in if wasConnected \<and> autoReconnect (options c2) \<and> url c2 \<noteq> None \<and> url c2 \<noteq> Some []
             then scheduleReconnect c2
             else c2)"

text \<open>
  \<^verbatim>\<open>close()\<close>. \<^verbatim>\<open>ws.close()\<close> starts the closing handshake of a socket that is connecting
  or open.
\<close>

definition ws_close :: "nat \<Rightarrow> ZapClient \<Rightarrow> ZapClient" where
  "ws_close k c =
     (if socket_state c k = Some CONNECTING \<or> socket_state c k = Some OPEN
      then set_readyState k CLOSING c else c)"

definition reject_pending :: "string \<times> pending \<Rightarrow> ZapClient \<Rightarrow> ZapClient" where
  "reject_pending entry c =
     reject (pending_promise (snd entry)) (ConnectionError ''Connection closed'')
       (clearTimeout (pending_timeout (snd entry)) c)"

definition close :: "ZapClient \<Rightarrow> ZapClient" where
  "close c =
     (let c1 = (case reconnectTimeout c of
                  Some t \<Rightarrow> (clearTimeout t c)\<lparr>reconnectTimeout := None\<rparr>
                | None \<Rightarrow> c);
          c2 = (case ws c1 of Some k \<Rightarrow> (ws_close k c1)\<lparr>ws := None\<rparr> | None \<Rightarrow> c1);
          c3 = fold reject_pending (pendingRequests c2) c2
      in c3\<lparr>pendingRequests := [], state := Disconnected\<rparr>)"

text \<open>
  \<^verbatim>\<open>request(method, params)\<close>, with the id \<^verbatim>\<open>generateId()\<close> returns (a random string) as
  an argument: the error a client that is not connected throws, or the promise the call
  returns.
\<close>

definition request :: "'fs runtime \<Rightarrow> string \<Rightarrow> jsval \<Rightarrow> string \<Rightarrow> ZapClient \<Rightarrow> (exn + nat) \<times> ZapClient" where
  "request rt method params rid c =
     (if \<not> isConnected c then (Inl (ConnectionError ''Not connected''), c)
      else
        let req = JObj [(''id'', JStr rid), (''method'', JStr method), (''params'', params)];
            (p, c1) = fresh c;
            (t, c2) = setTimeout (RequestTimeout rid method p) (timeout (options c1)) c1;
            c3 = c2\<lparr>pendingRequests :=
                      AList.update rid \<lparr>pending_promise = p, pending_timeout = t\<rparr> (pendingRequests c2)\<rparr>
        in (Inr p, send (encode rt (protocol c3) Request req) c3))"

text \<open>
  A timer fires: it is armed no longer, and its callback runs. A timer that was
  cleared does not fire.
\<close>

definition run_callback :: "'fs runtime \<Rightarrow> timer_callback \<Rightarrow> ZapClient \<Rightarrow> ZapClient" where
  "run_callback rt cb c =
     (case cb of
        ConnectTimeout p \<Rightarrow> reject p (TimeoutError ''Connection timeout'') (c\<lparr>state := Disconnected\<rparr>)
      | RequestTimeout rid method p \<Rightarrow>
          reject p (TimeoutError (''Request timeout: '' @ method))
            (c\<lparr>pendingRequests := AList.delete rid (pendingRequests c)\<rparr>)
      | ReconnectAttempt \<Rightarrow>
          (case url c of
             None \<Rightarrow> c
           | Some u \<Rightarrow>
               if u = [] then c
               else
                 (case connect rt u c of
                    (Inl e, c1) \<Rightarrow> c1
                  | (Inr p, c1) \<Rightarrow>
                      if settled c1 p then c1
                      else c1\<lparr>awaited_by_reconnect := p # awaited_by_reconnect c1\<rparr>)))"

definition timer_fires :: "'fs runtime \<Rightarrow> nat \<Rightarrow> ZapClient \<Rightarrow> ZapClient" where
  "timer_fires rt h c =
     (case map_of (timers c) h of
        None \<Rightarrow> c
      | Some (delay, cb) \<Rightarrow> run_callback rt cb (clearTimeout h c))"

text \<open>
  The states a session can be in: a new client, then any sequence of calls of its
  methods, events of its sockets and firings of its timers. The two predicates after it
  are what holds in all of them: of the attempt counter, and of the reconnection timers
  armed and the error events emitted.
\<close>

inductive reachable :: "'fs runtime \<Rightarrow> ZapClient \<Rightarrow> bool" for rt :: "'fs runtime" where
  created: "reachable rt (new_ZapClient opts)"
| connect_called: "reachable rt c \<Longrightarrow> reachable rt (snd (connect rt u c))"
| request_called: "reachable rt c \<Longrightarrow> reachable rt (snd (request rt method params rid c))"
| close_called: "reachable rt c \<Longrightarrow> reachable rt (close c)"
| socket_opened: "reachable rt c \<Longrightarrow> reachable rt (ws_onopen rt k c)"
| message_received: "reachable rt c \<Longrightarrow> reachable rt (ws_onmessage k msg c)"
| socket_failed: "reachable rt c \<Longrightarrow> reachable rt (ws_onerror k c)"
| socket_closed: "reachable rt c \<Longrightarrow> reachable rt (ws_onclose k c)"
| timer_fired: "reachable rt c \<Longrightarrow> reachable rt (timer_fires rt h c)"

definition attempts_ok :: "ZapClient \<Rightarrow> bool" where
  "attempts_ok c = ((state c = Connected \<longrightarrow> reconnectAttempts c = 0) \<and> reconnectAttempts c \<le> 1)"

definition first_attempt_only :: "ZapClient \<Rightarrow> bool" where
  "first_attempt_only c =
     ((\<forall>t \<in> set (timers c).
          snd (snd t) = ReconnectAttempt \<longrightarrow> fst (snd t) = reconnectInterval (options c))
      \<and> (1 \<le> maxReconnectAttempts (options c) \<longrightarrow>
           ErrorEvent (ConnectionError ''Max reconnect attempts reached'') \<notin> set (emitted c)))"

section \<open>Session manager (\<^verbatim>\<open>zap-client.ts\<close>, class \<^verbatim>\<open>ZapExtensionClient\<close>)\<close>

text \<open>The interfaces \<^verbatim>\<open>Tool\<close>, \<^verbatim>\<open>ToolInfo\<close>, \<^verbatim>\<open>McpInfo\<close> and \<^verbatim>\<open>McpConnection\<close>.\<close>

record Tool =
  tool_name :: string
  tool_description :: string
  tool_schema :: jsval

record ToolInfo =
  info_name :: string
  info_description :: "string option"
  inputSchema :: "string option"

record McpInfo =
  mcp_id :: string
  mcp_name :: string
  mcp_url :: string
  mcp_connected :: bool
  mcp_tools :: "ToolInfo list"

text \<open>
  A connection holds its \<^verbatim>\<open>ZapClient\<close>, the session, named here by a handle: of the
  session the manager sees the outcome of \<^verbatim>\<open>connect\<close> and \<^verbatim>\<open>listTools\<close>, and its
  \<^verbatim>\<open>'disconnect'\<close> and \<^verbatim>\<open>'reconnect'\<close> events.
\<close>

record McpConnection =
  client :: nat
  info :: McpInfo
  connected :: bool

text \<open>
  The manager. The handlers \<^verbatim>\<open>connectMcp\<close> registers on a session keep the connection
  object they were created with, whether or not the map still holds it, so the objects
  live in a store, by the handle of their session, and the map \<^verbatim>\<open>mcpConnections\<close> (in
  insertion order) holds references into it. \<open>sessions\<close> lists every \<^verbatim>\<open>ZapClient\<close>
  that \<^verbatim>\<open>connectMcp\<close> constructed, with the url it was told to connect to;
  \<open>mcp_events\<close> is what the manager emitted.
\<close>

record ZapExtensionClient =
  extensionId :: string
  mcpConnections :: "(string \<times> nat) list"
  store :: "(nat \<times> McpConnection) list"
  sessions :: "(nat \<times> string) list"
  mcp_events :: "(string \<times> McpInfo) list"

definition new_ZapExtensionClient :: "string \<Rightarrow> ZapExtensionClient" where
  "new_ZapExtensionClient eid =
     \<lparr>extensionId = eid, mcpConnections = [], store = [], sessions = [], mcp_events = []\<rparr>"

text \<open>\<^verbatim>\<open>Array.from(this.mcpConnections.values())\<close>\<close>

definition connections :: "ZapExtensionClient \<Rightarrow> McpConnection list" where
  "connections m = List.map_filter (\<lambda>(k, h). map_of (store m) h) (mcpConnections m)"

text \<open>\<^verbatim>\<open>get mcps\<close>\<close>

definition mcps :: "ZapExtensionClient \<Rightarrow> McpInfo list" where
  "mcps m = map info (filter connected (connections m))"

text \<open>
  \<^verbatim>\<open>connectMcp(url)\<close> runs in two steps, and other calls and events may run between
  them. The first step, up to \<^verbatim>\<open>await client.connect(url)\<close>, either returns the record of
  a connected connection with that url or constructs a session and starts connecting
  it.
\<close>

definition connectMcp_begin :: "string \<Rightarrow> ZapExtensionClient \<Rightarrow> (McpInfo + nat) \<times> ZapExtensionClient" where
  "connectMcp_begin u m =
     (case find (\<lambda>c. mcp_url (info c) = u \<and> connected c) (connections m) of
        Some existing \<Rightarrow> (Inl (info existing), m)
      | None \<Rightarrow>
          let h = length (sessions m) + 1
          in (Inr h, m\<lparr>sessions := sessions m @ [(h, u)]\<rparr>))"

text \<open>
  The second step, of the call that constructed session \<open>h\<close> for the url \<open>u\<close>, runs when
  \<^verbatim>\<open>client.connect(url)\<close> and \<^verbatim>\<open>client.listTools()\<close> have settled: \<open>listed\<close> is the error
  either was rejected with, or the tools listed; \<open>gid\<close> is what \<^verbatim>\<open>generateClientId()\<close>
  returns (a string of the time and a random number).
\<close>

definition tool_info :: "'fs runtime \<Rightarrow> Tool \<Rightarrow> ToolInfo" where
  "tool_info rt t =
     \<lparr>info_name = tool_name t, info_description = Some (tool_description t),
      inputSchema = JSON_stringify rt (tool_schema t)\<rparr>"

definition connectMcp_end ::
  "'fs runtime \<Rightarrow> nat \<Rightarrow> string \<Rightarrow> exn + Tool list \<Rightarrow> string \<Rightarrow> ZapExtensionClient \<Rightarrow>
     (exn + McpInfo) \<times> ZapExtensionClient" where
  "connectMcp_end rt h u listed gid m =
     (case listed of
        Inl e \<Rightarrow>
          (Inl (ConnectionError (''Failed to connect to MCP at '' @ u @ '': '' @ exn_toString e)), m)
      | Inr tools \<Rightarrow>
          let i = \<lparr>mcp_id = gid, mcp_name = ''MCP@'' @ u, mcp_url = u, mcp_connected = True,
                   mcp_tools = map (tool_info rt) tools\<rparr>;
              connection = \<lparr>client = h, info = i, connected = True\<rparr>
          in (Inr i,
              m\<lparr>store := AList.update h connection (store m),
                mcpConnections := AList.update gid h (mcpConnections m),
                mcp_events := mcp_events m @ [(''mcp:connect'', i)]\<rparr>))"

text \<open>
  The handlers of the session's \<^verbatim>\<open>'disconnect'\<close> and \<^verbatim>\<open>'reconnect'\<close> events, registered by
  the second step.
\<close>

definition set_connected :: "bool \<Rightarrow> McpConnection \<Rightarrow> McpConnection" where
  "set_connected b c = c\<lparr>connected := b, info := (info c)\<lparr>mcp_connected := b\<rparr>\<rparr>"

definition session_event :: "string \<Rightarrow> bool \<Rightarrow> nat \<Rightarrow> ZapExtensionClient \<Rightarrow> ZapExtensionClient" where
  "session_event name b h m =
     (case map_of (store m) h of
        None \<Rightarrow> m
      | Some c \<Rightarrow>
          m\<lparr>store := AList.update h (set_connected b c) (store m),
            mcp_events := mcp_events m @ [(name, info (set_connected b c))]\<rparr>)"

definition on_disconnect :: "nat \<Rightarrow> ZapExtensionClient \<Rightarrow> ZapExtensionClient" where
  "on_disconnect h m = session_event ''mcp:disconnect'' False h m"

definition on_reconnect :: "nat \<Rightarrow> ZapExtensionClient \<Rightarrow> ZapExtensionClient" where
  "on_reconnect h m = session_event ''mcp:reconnect'' True h m"

text \<open>\<^verbatim>\<open>disconnectMcp(mcpId)\<close>, the session's \<^verbatim>\<open>close()\<close> being the session's own affair.\<close>

definition disconnectMcp :: "string \<Rightarrow> ZapExtensionClient \<Rightarrow> ZapExtensionClient" where
  "disconnectMcp mcpId m =
     (case map_of (mcpConnections m) mcpId of
        None \<Rightarrow> m
      | Some h \<Rightarrow>
          (case map_of (store m) h of
             None \<Rightarrow> m
           | Some c \<Rightarrow>
               m\<lparr>store := AList.update h (set_connected False c) (store m),
                 mcpConnections := AList.delete mcpId (mcpConnections m),
                 mcp_events := mcp_events m @ [(''mcp:disconnect'', info (set_connected False c))]\<rparr>))"

section \<open>Command router (\<^verbatim>\<open>cdp-bridge-server.ts\<close>, class \<^verbatim>\<open>CDPBridgeServer\<close>)\<close>

text \<open>
  The fields of the class, then what it acts on. \<open>clients\<close> is the \<^verbatim>\<open>Map\<close> from a socket
  (a handle) to the capabilities it registered with, in insertion order. A pending
  command is named by its id, which also names the promise \<^verbatim>\<open>sendRaw\<close> returned for it.
  \<open>outbox\<close> is what was handed to \<^verbatim>\<open>ws.send\<close>, by socket; \<open>timeouts\<close> the ids whose 30 s
  timer is armed; \<open>replies\<close> the settled promises with their outcome.
\<close>

record CDPBridgeServer =
  clients :: "(nat \<times> jsval) list"
  pendingCommands :: "nat list"
  commandId :: nat
  httpPort :: int
  outbox :: "(nat \<times> string option) list"
  timeouts :: "nat list"
  replies :: "(nat \<times> (exn + jsval)) list"

definition new_CDPBridgeServer :: "int \<Rightarrow> CDPBridgeServer" where
  "new_CDPBridgeServer port =
     \<lparr>clients = [], pendingCommands = [], commandId = 0, httpPort = port, outbox = [],
      timeouts = [], replies = []\<rparr>"

text \<open>
  \<^verbatim>\<open>sendRaw(method, params)\<close>: the error it throws when no client is registered, or the id
  of the command it sent to the first client.
\<close>

definition sendRaw :: "'fs runtime \<Rightarrow> jsval \<Rightarrow> jsval \<Rightarrow> CDPBridgeServer \<Rightarrow> (exn + nat) \<times> CDPBridgeServer" where
  "sendRaw rt method params s =
     (case clients s of
        [] \<Rightarrow> (Inl (Error ''No browser extension connected''), s)
      | first # others \<Rightarrow>
          let i = commandId s + 1;
              text = JSON_stringify rt
                       (JObj [(''id'', JNum (int i)), (''method'', method), (''params'', params)])
          in (Inr i,
              s\<lparr>commandId := i, pendingCommands := pendingCommands s @ [i],
                outbox := outbox s @ [(fst first, text)], timeouts := timeouts s @ [i]\<rparr>))"

text \<open>The callback of the 30 s timer of command \<open>i\<close>.\<close>

definition command_timeout :: "nat \<Rightarrow> CDPBridgeServer \<Rightarrow> CDPBridgeServer" where
  "command_timeout i s =
     (let s1 = s\<lparr>timeouts := removeAll i (timeouts s)\<rparr>
      in if i \<in> set (pendingCommands s1) then
           s1\<lparr>pendingCommands := removeAll i (pendingCommands s1),
              replies := replies s1 @ [(i, Inl (Error ''Command timeout''))]\<rparr>
         else s1)"

text \<open>
  \<^verbatim>\<open>handleMessage(ws, message)\<close> on the parsed message. What it throws (reading
  \<^verbatim>\<open>message.type\<close> of \<^verbatim>\<open>null\<close>) is caught and logged by the socket's \<^verbatim>\<open>'message'\<close> handler,
  as is a text that does not parse.
\<close>

definition handleMessage :: "nat \<Rightarrow> jsval \<Rightarrow> CDPBridgeServer \<Rightarrow> CDPBridgeServer" where
  "handleMessage w message s =
     (if nullish message then s
      else if js_member message ''type'' = JStr ''register'' then
        s\<lparr>clients := AList.update w (js_or (js_member message ''capabilities'') (JArr [])) (clients s)\<rparr>
      else if js_member message ''id'' \<noteq> JUndefined then
        (case js_member message ''id'' of
           JNum n \<Rightarrow>
             if 0 \<le> n \<and> nat n \<in> set (pendingCommands s) then
               s\<lparr>pendingCommands := removeAll (nat n) (pendingCommands s),
                 replies := replies s @
                   [(nat n,
                     if truthy (js_member message ''error'')
                     then Inl (new_Error (js_member (js_member message ''error'') ''message''))
                     else Inr (js_member message ''result''))]\<rparr>
             else s
         | _ \<Rightarrow> s)
      else s)"

definition on_message :: "'fs runtime \<Rightarrow> nat \<Rightarrow> string \<Rightarrow> CDPBridgeServer \<Rightarrow> CDPBridgeServer" where
  "on_message rt w text s =
     (case JSON_parse rt text of None \<Rightarrow> s | Some message \<Rightarrow> handleMessage w message s)"

text \<open>The socket's \<^verbatim>\<open>'close'\<close> handler.\<close>

definition on_close :: "nat \<Rightarrow> CDPBridgeServer \<Rightarrow> CDPBridgeServer" where
  "on_close w s = s\<lparr>clients := AList.delete w (clients s)\<rparr>"

text \<open>
  \<^verbatim>\<open>browser(params)\<close> is an \<^verbatim>\<open>async\<close> function: it returns or throws at once, or it is
  suspended on the reply to a command it sent, or on a timer (the \<^verbatim>\<open>wait\<close> action, for
  a number of seconds, after which it returns a value). What it does with the reply is
  either to return it (\<^verbatim>\<open>return this.sendRaw(...)\<close>) or the rest of the \<^verbatim>\<open>screenshot\<close>
  case, which reads \<^verbatim>\<open>rest\<close>.
\<close>

datatype continuation = ReturnReply | SaveScreenshot "(string \<times> jsval) list"

datatype call =
    Returns jsval
  | Throws exn
  | AwaitsCommand nat continuation
  | AwaitsTimer jsval jsval

definition relay ::
  "'fs runtime \<Rightarrow> jsval \<Rightarrow> jsval \<Rightarrow> continuation \<Rightarrow> CDPBridgeServer \<Rightarrow> call \<times> CDPBridgeServer" where
  "relay rt method params k s =
     (case sendRaw rt method params s of
        (Inl e, s1) \<Rightarrow> (Throws e, s1)
      | (Inr i, s1) \<Rightarrow> (AwaitsCommand i k, s1))"

text \<open>The labels of the \<^verbatim>\<open>switch\<close>, in its order.\<close>

definition translation_table :: "string list" where
  "translation_table =
     [''navigate'', ''navigate_back'', ''go_back'', ''navigate_forward'', ''go_forward'',
      ''reload'', ''url'', ''title'', ''content'', ''screenshot'', ''snapshot'', ''click'',
      ''dblclick'', ''double_click'', ''hover'', ''type'', ''fill'', ''clear'', ''press_key'',
      ''press'', ''select_option'', ''check'', ''uncheck'', ''evaluate'', ''wait'',
      ''wait_for_load'', ''tabs'', ''list_tabs'', ''new_tab'', ''close_tab'', ''select_tab'',
      ''console_messages'', ''console'', ''network_requests'', ''status'']"

definition evaluate :: "string \<Rightarrow> jsval" where
  "evaluate expression = JObj [(''expression'', JStr expression), (''returnByValue'', JBool True)]"

definition selector :: "(string \<times> jsval) list \<Rightarrow> jsval" where
  "selector rest = js_or (getprop rest ''selector'') (getprop rest ''ref'')"

text \<open>
  \<^verbatim>\<open>const { action, ...rest } = params; switch (action) ...\<close>, the labels compared with
  \<^verbatim>\<open>===\<close>.
\<close>

definition browser ::
  "'fs runtime \<Rightarrow> (string \<times> jsval) list \<Rightarrow> CDPBridgeServer \<Rightarrow> call \<times> CDPBridgeServer" where
  "browser rt params s =
     (let action = getprop params ''action'';
          rest = AList.delete ''action'' params
      in
      if action = JStr ''navigate'' then
        relay rt (JStr ''Page.navigate'') (JObj [(''url'', getprop rest ''url'')]) ReturnReply s
      else if action = JStr ''navigate_back'' \<or> action = JStr ''go_back'' then
        relay rt (JStr ''Page.goBack'') JUndefined ReturnReply s
      else if action = JStr ''navigate_forward'' \<or> action = JStr ''go_forward'' then
        relay rt (JStr ''Page.goForward'') JUndefined ReturnReply s
      else if action = JStr ''reload'' then
        relay rt (JStr ''Page.reload'') JUndefined ReturnReply s
      else if action = JStr ''url'' then
        relay rt (JStr ''Runtime.evaluate'') (evaluate ''window.location.href'') ReturnReply s
      else if action = JStr ''title'' then
        relay rt (JStr ''Runtime.evaluate'') (evaluate ''document.title'') ReturnReply s
      else if action = JStr ''content'' then
        relay rt (JStr ''Runtime.evaluate'') (evaluate ''document.documentElement.outerHTML'')
          ReturnReply s
      else if action = JStr ''screenshot'' then
        relay rt (JStr ''hanzo.screenshot'')
          (JObj [(''format'', js_or (getprop rest ''format'') (JStr ''png'')),
                 (''fullPage'', getprop rest ''fullPage'')])
          (SaveScreenshot rest) s
      else if action = JStr ''snapshot'' then
        relay rt (JStr ''Accessibility.getFullAXTree'') JUndefined ReturnReply s
      else if action = JStr ''click'' then
        relay rt (JStr ''hanzo.click'') (JObj [(''selector'', selector rest)]) ReturnReply s
      else if action = JStr ''dblclick'' \<or> action = JStr ''double_click'' then
        relay rt (JStr ''hanzo.dblclick'') (JObj [(''selector'', selector rest)]) ReturnReply s
      else if action = JStr ''hover'' then
        relay rt (JStr ''hanzo.hover'') (JObj [(''selector'', selector rest)]) ReturnReply s
      else if action = JStr ''type'' then
        relay rt (JStr ''hanzo.type'')
          (JObj [(''selector'', selector rest), (''text'', getprop rest ''text'')]) ReturnReply s
      else if action = JStr ''fill'' then
        relay rt (JStr ''hanzo.fill'')
          (JObj [(''selector'', selector rest),
                 (''value'', js_or (getprop rest ''value'') (getprop rest ''text''))])
          ReturnReply s
      else if action = JStr ''clear'' then
        relay rt (JStr ''hanzo.clear'') (JObj [(''selector'', selector rest)]) ReturnReply s
      else if action = JStr ''press_key'' \<or> action = JStr ''press'' then
        relay rt (JStr ''Input.dispatchKeyEvent'')
          (JObj [(''type'', JStr ''keyDown''), (''key'', getprop rest ''key'')]) ReturnReply s
      else if action = JStr ''select_option'' then
        relay rt (JStr ''hanzo.select'')
          (JObj [(''selector'', selector rest), (''value'', getprop rest ''value'')]) ReturnReply s
      else if action = JStr ''check'' then
        relay rt (JStr ''hanzo.check'') (JObj [(''selector'', selector rest)]) ReturnReply s
      else if action = JStr ''uncheck'' then
        relay rt (JStr ''hanzo.uncheck'') (JObj [(''selector'', selector rest)]) ReturnReply s
      else if action = JStr ''evaluate'' then
        relay rt (JStr ''Runtime.evaluate'')
          (JObj [(''expression'',
                  js_or (js_or (getprop rest ''code'') (getprop rest ''function''))
                    (getprop rest ''expression'')),
                 (''returnByValue'', JBool True)])
          ReturnReply s
      else if action = JStr ''wait'' then
        (AwaitsTimer (js_or (getprop rest ''timeout'') (JNum 1))
           (JObj [(''waited'', js_or (getprop rest ''timeout'') (JNum 1))]), s)
      else if action = JStr ''wait_for_load'' then
        relay rt (JStr ''Page.waitForLoadState'')
          (JObj [(''state'', js_or (getprop rest ''state'') (JStr ''load''))]) ReturnReply s
      else if action = JStr ''tabs'' \<or> action = JStr ''list_tabs'' then
        relay rt (JStr ''Target.getTargets'') JUndefined ReturnReply s
      else if action = JStr ''new_tab'' then
        relay rt (JStr ''Target.createTarget'')
          (JObj [(''url'', js_or (getprop rest ''url'') (JStr ''about:blank''))]) ReturnReply s
      else if action = JStr ''close_tab'' then
        relay rt (JStr ''Target.closeTarget'') (JObj [(''targetId'', getprop rest ''tabId'')])
          ReturnReply s
      else if action = JStr ''select_tab'' then
        relay rt (JStr ''Target.activateTarget'') (JObj [(''targetId'', getprop rest ''tabId'')])
          ReturnReply s
      else if action = JStr ''console_messages'' \<or> action = JStr ''console'' then
        relay rt (JStr ''Console.getMessages'') JUndefined ReturnReply s
      else if action = JStr ''network_requests'' then
        relay rt (JStr ''Network.getResponseBodies'') JUndefined ReturnReply s
      else if action = JStr ''status'' then
        (Returns (JObj [(''connected'', JBool (length (clients s) > 0)),
                        (''clients'', JNum (int (length (clients s)))),
                        (''port'', JNum (httpPort s))]), s)
      else relay rt action (JObj rest) ReturnReply s)"

text \<open>
  What the suspended call does when the promise it awaits settles with \<open>reply\<close>, on the
  file system \<open>fs\<close>: its outcome, and the file system it leaves. A rejection is thrown
  on; a write that throws is taken to leave the file system as it was.
\<close>

definition resume ::
  "'fs runtime \<Rightarrow> continuation \<Rightarrow> exn + jsval \<Rightarrow> 'fs \<Rightarrow> (exn + jsval) \<times> 'fs" where
  "resume rt k reply fs =
     (case reply of
        Inl e \<Rightarrow> (Inl e, fs)
      | Inr screenshot \<Rightarrow>
          (case k of
             ReturnReply \<Rightarrow> (Inr screenshot, fs)
           | SaveScreenshot rest \<Rightarrow>
               if \<not> truthy (getprop rest ''filename'') then (Inr screenshot, fs)
               else
                 (case js_get screenshot ''data'' of
                    Inl e \<Rightarrow> (Inl e, fs)
                  | Inr d \<Rightarrow>
                      if \<not> truthy d then (Inr screenshot, fs)
                      else
                        (case Buffer_from_base64 rt d of
                           Inl e \<Rightarrow> (Inl e, fs)
                         | Inr buffer \<Rightarrow>
                             (case fs_writeFileSync rt fs (getprop rest ''filename'') buffer of
                                Inl e \<Rightarrow> (Inl e, fs)
                              | Inr fs1 \<Rightarrow>
                                  (Inr (JObj [(''saved'', getprop rest ''filename''),
                                              (''bytes'', JNum (int (length buffer)))]),
                                   fs1))))))"

section \<open>A reference platform\<close>

text \<open>
  One platform to run the model on: JSON texts of the values above (integers, strings
  of ASCII characters with the short escapes and \<^verbatim>\<open>\u00XX\<close>, no fractions or exponents),
  ASCII for UTF-8, base64 of a string, files as a list of paths with their contents, and
  the \<^verbatim>\<open>ws:\<close> and \<^verbatim>\<open>wss:\<close> schemes for a socket. It stands for the engine where a
  statement is evaluated at a concrete input; no general statement depends on it.
\<close>

definition escape_char :: "char \<Rightarrow> string" where
  "escape_char c =
     (if c = CHR 0x22 then [CHR 0x5C, CHR 0x22]
      else if c = CHR 0x5C then [CHR 0x5C, CHR 0x5C]
      else if c = CHR 0x08 then [CHR 0x5C, CHR ''b'']
      else if c = CHR 0x0C then [CHR 0x5C, CHR ''f'']
      else if c = CHR 0x0A then [CHR 0x5C, CHR ''n'']
      else if c = CHR 0x0D then [CHR 0x5C, CHR ''r'']
      else if c = CHR 0x09 then [CHR 0x5C, CHR ''t'']
      else if (of_char c :: nat) < 32 then
        [CHR 0x5C, CHR ''u'', CHR ''0'', CHR ''0'',
         digit_char (of_char c div 16), digit_char (of_char c mod 16)]
      else [c])"

definition quote :: "string \<Rightarrow> string" where
  "quote s = CHR 0x22 # concat (map escape_char s) @ [CHR 0x22]"

text \<open>
  The text of a value inside a text: an \<^verbatim>\<open>undefined\<close> element of an array is written
  \<^verbatim>\<open>null\<close>, a property whose value is \<^verbatim>\<open>undefined\<close> is left out.
\<close>

fun json_text :: "jsval \<Rightarrow> string"
  and json_elements :: "jsval list \<Rightarrow> string list"
  and json_members :: "(string \<times> jsval) list \<Rightarrow> string list" where
  "json_text JUndefined = ''null''"
| "json_text JNull = ''null''"
| "json_text (JBool b) = (if b then ''true'' else ''false'')"
| "json_text (JNum n) = show_int n"
| "json_text (JStr s) = quote s"
| "json_text (JArr xs) = CHR ''['' # commas (json_elements xs) @ '']''"
| "json_text (JObj kvs) = CHR ''{'' # commas (json_members kvs) @ ''}''"
| "json_elements [] = []"
| "json_elements (x # xs) = json_text x # json_elements xs"
| "json_members [] = []"
| "json_members ((k, v) # kvs) =
     (if v = JUndefined then json_members kvs
      else (quote k @ CHR '':'' # json_text v) # json_members kvs)"

definition ref_stringify :: "jsval \<Rightarrow> string option" where
  "ref_stringify v = (if v = JUndefined then None else Some (json_text v))"

definition is_ws :: "char \<Rightarrow> bool" where
  "is_ws c = (c = CHR 0x20 \<or> c = CHR 0x09 \<or> c = CHR 0x0A \<or> c = CHR 0x0D)"

fun skip_ws :: "string \<Rightarrow> string" where
  "skip_ws [] = []"
| "skip_ws (c # cs) = (if is_ws c then skip_ws cs else c # cs)"

definition digit_value :: "char \<Rightarrow> nat option" where
  "digit_value c =
     (let n = (of_char c :: nat) in if 48 \<le> n \<and> n \<le> 57 then Some (n - 48) else None)"

definition hex_value :: "char \<Rightarrow> nat option" where
  "hex_value c =
     (let n = (of_char c :: nat) in
      if 48 \<le> n \<and> n \<le> 57 then Some (n - 48)
      else if 97 \<le> n \<and> n \<le> 102 then Some (n - 87)
      else if 65 \<le> n \<and> n \<le> 70 then Some (n - 55)
      else None)"

fun parse_digits :: "nat \<Rightarrow> string \<Rightarrow> nat \<times> string" where
  "parse_digits acc [] = (acc, [])"
| "parse_digits acc (c # cs) =
     (case digit_value c of
        Some d \<Rightarrow> parse_digits (acc * 10 + d) cs
      | None \<Rightarrow> (acc, c # cs))"

definition parse_nat :: "string \<Rightarrow> (nat \<times> string) option" where
  "parse_nat s =
     (case s of
        [] \<Rightarrow> None
      | c # cs \<Rightarrow>
          (case digit_value c of
             None \<Rightarrow> None
           | Some d \<Rightarrow>
               let (n, rest) = (if d = 0 then (0, cs) else parse_digits d cs)
               in (case rest of
                     [] \<Rightarrow> Some (n, rest)
                   | r # rs \<Rightarrow>
                       if digit_value r \<noteq> None \<or> r = CHR ''.'' \<or> r = CHR ''e'' \<or> r = CHR ''E''
                       then None else Some (n, rest))))"

definition unescape :: "string \<Rightarrow> (char \<times> string) option" where
  "unescape s =
     (case s of
        [] \<Rightarrow> None
      | c # cs \<Rightarrow>
          if c = CHR 0x22 \<or> c = CHR 0x5C \<or> c = CHR ''/'' then Some (c, cs)
          else if c = CHR ''b'' then Some (CHR 0x08, cs)
          else if c = CHR ''f'' then Some (CHR 0x0C, cs)
          else if c = CHR ''n'' then Some (CHR 0x0A, cs)
          else if c = CHR ''r'' then Some (CHR 0x0D, cs)
          else if c = CHR ''t'' then Some (CHR 0x09, cs)
          else if c = CHR ''u'' then
            (case cs of
               a # b # x # y # rest \<Rightarrow>
                 (case (hex_value a, hex_value b, hex_value x, hex_value y) of
                    (Some 0, Some 0, Some h, Some l) \<Rightarrow>
                      if h < 8 then Some (char_of (16 * h + l), rest) else None
                  | _ \<Rightarrow> None)
             | _ \<Rightarrow> None)
          else None)"

text \<open>
  The parser runs on fuel, which \<open>ref_parse\<close> gives it more of than a text can use: every
  call but the first follows a character read.
\<close>

fun parse_chars :: "nat \<Rightarrow> string \<Rightarrow> string \<Rightarrow> (string \<times> string) option" where
  "parse_chars 0 acc s = None"
| "parse_chars (Suc fuel) acc [] = None"
| "parse_chars (Suc fuel) acc (c # cs) =
     (if c = CHR 0x22 then Some (rev acc, cs)
      else if c = CHR 0x5C then
        (case unescape cs of
           None \<Rightarrow> None
         | Some (d, rest) \<Rightarrow> parse_chars fuel (d # acc) rest)
      else if (of_char c :: nat) < 32 then None
      else parse_chars fuel (c # acc) cs)"

definition parse_string :: "string \<Rightarrow> (string \<times> string) option" where
  "parse_string s = parse_chars (length s) [] s"

definition literal :: "string \<Rightarrow> string \<Rightarrow> string option" where
  "literal w s = (if take (length w) s = w then Some (drop (length w) s) else None)"

fun parse_value :: "nat \<Rightarrow> string \<Rightarrow> (jsval \<times> string) option"
  and parse_elements :: "nat \<Rightarrow> jsval list \<Rightarrow> string \<Rightarrow> (jsval \<times> string) option"
  and parse_members :: "nat \<Rightarrow> (string \<times> jsval) list \<Rightarrow> string \<Rightarrow> (jsval \<times> string) option" where
  "parse_value 0 s = None"
| "parse_value (Suc fuel) s =
     (case skip_ws s of
        [] \<Rightarrow> None
      | c # cs \<Rightarrow>
          if c = CHR ''n'' then map_option (Pair JNull) (literal ''ull'' cs)
          else if c = CHR ''t'' then map_option (Pair (JBool True)) (literal ''rue'' cs)
          else if c = CHR ''f'' then map_option (Pair (JBool False)) (literal ''alse'' cs)
          else if c = CHR 0x22 then
            map_option (\<lambda>(str, rest). (JStr str, rest)) (parse_string cs)
          else if c = CHR ''-'' then
            map_option (\<lambda>(n, rest). (JNum (- int n), rest)) (parse_nat cs)
          else if c = CHR ''['' then
            (case skip_ws cs of
               [] \<Rightarrow> None
             | d # ds \<Rightarrow> if d = CHR '']'' then Some (JArr [], ds) else parse_elements fuel [] cs)
          else if c = CHR ''{'' then
            (case skip_ws cs of
               [] \<Rightarrow> None
             | d # ds \<Rightarrow> if d = CHR ''}'' then Some (JObj [], ds) else parse_members fuel [] cs)
          else map_option (\<lambda>(n, rest). (JNum (int n), rest)) (parse_nat (c # cs)))"
| "parse_elements 0 acc s = None"
| "parse_elements (Suc fuel) acc s =
     (case parse_value fuel s of
        None \<Rightarrow> None
      | Some (v, rest) \<Rightarrow>
          (case skip_ws rest of
             [] \<Rightarrow> None
           | d # ds \<Rightarrow>
               if d = CHR '']'' then Some (JArr (rev (v # acc)), ds)
               else if d = CHR '','' then parse_elements fuel (v # acc) ds
               else None))"
| "parse_members 0 acc s = None"
| "parse_members (Suc fuel) acc s =
     (case skip_ws s of
        [] \<Rightarrow> None
      | q # qs \<Rightarrow>
          if q \<noteq> CHR 0x22 then None
          else
            (case parse_string qs of
               None \<Rightarrow> None
             | Some (k, rest) \<Rightarrow>
                 (case skip_ws rest of
                    [] \<Rightarrow> None
                  | c # cs \<Rightarrow>
                      if c \<noteq> CHR '':'' then None
                      else
                        (case parse_value fuel cs of
                           None \<Rightarrow> None
                         | Some (v, rest') \<Rightarrow>
                             (case skip_ws rest' of
                                [] \<Rightarrow> None
                              | d # ds \<Rightarrow>
                                  if d = CHR ''}'' then Some (JObj (AList.update k v acc), ds)
                                  else if d = CHR '','' then parse_members fuel (AList.update k v acc) ds
                                  else None)))))"

definition ref_parse :: "string \<Rightarrow> jsval option" where
  "ref_parse s =
     (case parse_value (2 * length s + 2) s of
        None \<Rightarrow> None
      | Some (v, rest) \<Rightarrow> if skip_ws rest = [] then Some v else None)"

definition ref_encode :: "string \<Rightarrow> byte list" where
  "ref_encode s = map (\<lambda>c. of_nat (of_char c)) s"

definition ref_decode :: "byte list \<Rightarrow> string" where
  "ref_decode bs = map (\<lambda>b. char_of (unat b)) bs"

definition base64_value :: "char \<Rightarrow> nat option" where
  "base64_value c =
     (let n = (of_char c :: nat) in
      if 65 \<le> n \<and> n \<le> 90 then Some (n - 65)
      else if 97 \<le> n \<and> n \<le> 122 then Some (n - 71)
      else if 48 \<le> n \<and> n \<le> 57 then Some (n + 4)
      else if c = CHR ''+'' \<or> c = CHR ''-'' then Some 62
      else if c = CHR ''/'' \<or> c = CHR ''_'' then Some 63
      else None)"

fun base64_bytes :: "nat list \<Rightarrow> byte list" where
  "base64_bytes (a # b # c # d # rest) =
     [of_nat (a * 4 + b div 16), of_nat ((b mod 16) * 16 + c div 4), of_nat ((c mod 4) * 64 + d)]
     @ base64_bytes rest"
| "base64_bytes [a, b, c] = [of_nat (a * 4 + b div 16), of_nat ((b mod 16) * 16 + c div 4)]"
| "base64_bytes [a, b] = [of_nat (a * 4 + b div 16)]"
| "base64_bytes xs = []"

definition ref_base64 :: "jsval \<Rightarrow> exn + byte list" where
  "ref_base64 v =
     (case v of
        JStr s \<Rightarrow>
          Inr (base64_bytes (List.map_filter base64_value (takeWhile (\<lambda>c. c \<noteq> CHR ''='') s)))
      | _ \<Rightarrow> Inl TypeError)"

type_synonym files = "(string \<times> byte list) list"

definition ref_writeFileSync :: "files \<Rightarrow> jsval \<Rightarrow> byte list \<Rightarrow> exn + files" where
  "ref_writeFileSync fs file bytes =
     (case file of
        JStr path \<Rightarrow> if path = [] then Inl (Error ''ENOENT'') else Inr (AList.update path bytes fs)
      | _ \<Rightarrow> Inl TypeError)"

definition ref_WebSocket :: "string \<Rightarrow> exn option" where
  "ref_WebSocket u =
     (if take 5 u = ''ws://'' \<or> take 6 u = ''wss://'' then None else Some SyntaxError)"

definition reference :: "files runtime" where
  "reference =
     \<lparr>JSON_stringify = ref_stringify, JSON_parse = ref_parse,
      TextEncoder_encode = ref_encode, TextDecoder_decode = ref_decode,
      Buffer_from_base64 = ref_base64, fs_writeFileSync = ref_writeFileSync,
      WebSocket_new = ref_WebSocket\<rparr>"

section \<open>Sample inputs\<close>

text \<open>Values on which statements are evaluated below.\<close>

definition sample_payload :: jsval where
  "sample_payload =
     JObj [(''id'', JStr ''r1''), (''result'', JObj [(''tools'', JArr [JObj [(''name'', JStr ''nav'')]])]),
           (''n'', JNum (- 42)), (''ok'', JBool True), (''none'', JNull)]"

text \<open>
  A session that connected to \<^verbatim>\<open>ws://localhost:9999\<close> (its \<^verbatim>\<open>connect\<close> call has promise 1
  and timer 2, its socket is 3), and the same with two requests in flight, \<open>A\<close> (promise
  4, timer 5) and \<open>B\<close> (promise 6, timer 7); three responses.
\<close>

definition accepting :: HandshakeReply where
  "accepting =
     \<lparr>accepted = True, reply_clientId = ''c1'', serverVersion = ''1.0.0'',
      reply_capabilities = [''tools''], reply_error = None\<rparr>"

definition connected_session :: ZapClient where
  "connected_session =
     ws_onmessage 3 (HandshakeResponseFrame accepting)
       (ws_onopen reference 3
          (snd (connect reference ''ws://localhost:9999'' (new_ZapClient (default_options ''c1'')))))"

definition two_requests :: ZapClient where
  "two_requests =
     snd (request reference ''tools/call'' (JObj [(''name'', JStr ''nav'')]) ''B''
            (snd (request reference ''tools/list'' JUndefined ''A'' connected_session)))"


definition reply_B :: ZapResponse where
  "reply_B = \<lparr>response_id = ''B'', response_result = JObj [(''content'', JArr [])], response_error = None\<rparr>"

definition reply_A :: ZapResponse where
  "reply_A =
     \<lparr>response_id = ''A'', response_result = JUndefined,
      response_error = Some \<lparr>error_code = NumCode (- 32601), error_message = ''Method not found'', error_data = JNull\<rparr>\<rparr>"

definition late_reply :: ZapResponse where
  "late_reply = \<lparr>response_id = ''Z'', response_result = JNum 1, response_error = None\<rparr>"

text \<open>
  The connected session after its socket closed unexpectedly (a reconnection is
  scheduled on timer 4); after that timer fired (the attempt's \<^verbatim>\<open>connect\<close> call has promise
  5 and timer 6, its socket is 7); after the attempt failed, the new socket reporting an
  error and closing; and after the attempt succeeded instead.
\<close>

definition dropped_session :: ZapClient where
  "dropped_session = ws_onclose 3 connected_session"

definition retrying_session :: ZapClient where
  "retrying_session = timer_fires reference 4 dropped_session"

definition failed_retry :: ZapClient where
  "failed_retry = ws_onclose 7 (ws_onerror 7 retrying_session)"

definition reconnected_session :: ZapClient where
  "reconnected_session =
     ws_onmessage 7 (HandshakeResponseFrame accepting) (ws_onopen reference 7 retrying_session)"

text \<open>
  The same run of a client constructed with \<^verbatim>\<open>{ clientId: 'c1', maxReconnectAttempts: 1 }\<close>:
  the options the constructor fills in, the session once connected, after its socket
  closed unexpectedly, and after the one attempt allowed failed.
\<close>

definition single_attempt :: ZapClientOptions where
  "single_attempt =
     \<lparr>clientId = ''c1'', clientType = McpClient, capabilities = [''tools'', ''browser'', ''mcp''],
      timeout = 30000, autoReconnect = True, reconnectInterval = 1000,
      maxReconnectAttempts = 1, binary_frames = True\<rparr>"

definition single_attempt_connected :: ZapClient where
  "single_attempt_connected =
     ws_onmessage 3 (HandshakeResponseFrame accepting)
       (ws_onopen reference 3
          (snd (connect reference ''ws://localhost:9999'' (new_ZapClient single_attempt))))"

definition single_attempt_dropped :: ZapClient where
  "single_attempt_dropped = ws_onclose 3 single_attempt_connected"

definition single_attempt_failed :: ZapClient where
  "single_attempt_failed =
     ws_onclose 7 (ws_onerror 7 (timer_fires reference 4 single_attempt_dropped))"

text \<open>
  A manager and one endpoint: after the first step of a \<^verbatim>\<open>connectMcp\<close> call, after its
  second step, after the first steps of two calls, and after the second steps of both.
\<close>

definition endpoint :: string where
  "endpoint = ''ws://localhost:9999''"

definition nav_tool :: Tool where
  "nav_tool = \<lparr>tool_name = ''nav'', tool_description = ''Navigate'', tool_schema = JObj [(''type'', JStr ''object'')]\<rparr>"

definition first_begun :: ZapExtensionClient where
  "first_begun = snd (connectMcp_begin endpoint (new_ZapExtensionClient ''ext-1''))"

definition first_connected :: ZapExtensionClient where
  "first_connected = snd (connectMcp_end reference 1 endpoint (Inr [nav_tool]) ''ext-a'' first_begun)"

definition both_begun :: ZapExtensionClient where
  "both_begun = snd (connectMcp_begin endpoint first_begun)"

definition both_connected :: ZapExtensionClient where
  "both_connected =
     snd (connectMcp_end reference 2 endpoint (Inr [nav_tool]) ''ext-b''
            (snd (connectMcp_end reference 1 endpoint (Inr [nav_tool]) ''ext-a'' both_begun)))"

text \<open>
  A command router with one registered agent, a command whose action is not in the
  table, a screenshot command with a file name, and a reply carrying the base64 text of
  two bytes.
\<close>

definition one_agent :: CDPBridgeServer where
  "one_agent =
     on_message reference 1 ''{\"type\":\"register\",\"role\":\"cdp-provider\",\"capabilities\":[\"navigate\"]}''
       (new_CDPBridgeServer 9223)"

definition custom_command :: "(string \<times> jsval) list" where
  "custom_command = [(''action'', JStr ''Emulation.setDeviceMetricsOverride''), (''foo'', JNum 1)]"

definition screenshot_command :: "(string \<times> jsval) list" where
  "screenshot_command =
     [(''action'', JStr ''screenshot''), (''format'', JStr ''png''), (''filename'', JStr ''out.png'')]"

definition screenshot_reply :: jsval where
  "screenshot_reply = JObj [(''data'', JStr ''aGk='')]"


section \<open>Properties of the frame codec\<close>

subsection \<open>The magic check\<close>

lemma verify_magic_error: "verify_magic arr i = Some e \<Longrightarrow> e = Error ''Invalid ZAP message''"
proof (induction arr i rule: verify_magic.induct)
  case (1 arr i)
  then show ?case
    by (subst (asm) (2) verify_magic.simps) (auto split: if_splits)
qed

lemma verify_magic_None:
  "verify_magic arr i = None \<longleftrightarrow> (\<forall>j. i \<le> j \<and> j < 4 \<longrightarrow> index arr j = index ZAP_MAGIC j)"
proof (induction arr i rule: verify_magic.induct)
  case (1 arr i)
  show ?case
  proof (cases "i < 4")
    case False
    then show ?thesis by (subst verify_magic.simps) auto
  next
    case True
    show ?thesis
    proof (cases "index arr i = index ZAP_MAGIC i")
      case False
      with True show ?thesis by (subst verify_magic.simps) auto
    next
      case same: True
      have "verify_magic arr i = verify_magic arr (i + 1)"
        using True same by (subst verify_magic.simps) simp
      also have "\<dots> = None \<longleftrightarrow> (\<forall>j. i + 1 \<le> j \<and> j < 4 \<longrightarrow> index arr j = index ZAP_MAGIC j)"
        using "1.IH" True same by simp
      also have "\<dots> \<longleftrightarrow> (\<forall>j. i \<le> j \<and> j < 4 \<longrightarrow> index arr j = index ZAP_MAGIC j)"
      proof -
        have "i \<le> j \<longleftrightarrow> j = i \<or> i + 1 \<le> j" for j by auto
        then show ?thesis using same by auto
      qed
      finally show ?thesis .
    qed
  qed
qed

lemma magic_prefix: "(\<forall>j. j < 4 \<longrightarrow> index arr j = index ZAP_MAGIC j) \<longleftrightarrow> take 4 arr = ZAP_MAGIC"
proof
  assume h: "\<forall>j. j < 4 \<longrightarrow> index arr j = index ZAP_MAGIC j"
  have len: "4 \<le> length arr"
    using h [rule_format, of 3] by (simp add: index_def ZAP_MAGIC_def split: if_splits)
  have "take 4 arr ! j = ZAP_MAGIC ! j" if "j < 4" for j
    using h [rule_format, OF that] that len by (simp add: index_def ZAP_MAGIC_def split: if_splits)
  then show "take 4 arr = ZAP_MAGIC"
    using len by (intro nth_equalityI) (simp_all add: ZAP_MAGIC_def)
next
  assume t: "take 4 arr = ZAP_MAGIC"
  then have len: "4 \<le> length arr"
  proof -
    have "length (take 4 arr) = length ZAP_MAGIC" using t by simp
    then show ?thesis by (simp add: ZAP_MAGIC_def)
  qed
  show "\<forall>j. j < 4 \<longrightarrow> index arr j = index ZAP_MAGIC j"
  proof (intro allI impI)
    fix j :: nat assume "j < 4"
    then have "arr ! j = take 4 arr ! j" by simp
    with t \<open>j < 4\<close> len show "index arr j = index ZAP_MAGIC j"
      by (simp add: index_def ZAP_MAGIC_def)
  qed
qed

lemma verify_magic_take: "verify_magic arr 0 = None \<longleftrightarrow> take 4 arr = ZAP_MAGIC"
  using verify_magic_None [of arr 0] magic_prefix [of arr] by simp

lemma decode_bad_magic:
  assumes "take 4 arr \<noteq> ZAP_MAGIC"
  shows "decode rt (Binary arr) = Inl (Error ''Invalid ZAP message'')"
proof -
  from assms obtain e where e: "verify_magic arr 0 = Some e"
    using verify_magic_take [of arr] by (cases "verify_magic arr 0") auto
  then have "e = Error ''Invalid ZAP message''" by (rule verify_magic_error)
  with e show ?thesis by (simp add: decode_def)
qed


text \<open>
  Claim C9, with the errors the code throws. \<^verbatim>\<open>decode\<close> never returns a frame for a
  binary input whose first four bytes are not the magic tag (an input of fewer than four
  bytes included), nor for a text input that is not well-formed JSON: it throws the plain
  \<^verbatim>\<open>Error('Invalid ZAP message')\<close> on a wrong magic, and the parser's \<^verbatim>\<open>SyntaxError\<close> on a
  text that does not parse.
\<close>

theorem decode_rejects_malformed:
  "(take 4 arr \<noteq> ZAP_MAGIC \<longrightarrow> decode rt (Binary arr) = Inl (Error ''Invalid ZAP message''))
   \<and> (JSON_parse rt s = None \<longrightarrow> decode rt (Text s) = Inl SyntaxError)"
  by (simp add: decode_bad_magic) (simp add: decode_def)

theorem decode_rejects_malformed_witness:
  "take 4 [0x5a, 0x41, 0x50, 0x02, 0x03, 0x31] \<noteq> ZAP_MAGIC
   \<and> decode reference (Binary [0x5a, 0x41, 0x50, 0x02, 0x03, 0x31]) = Inl (Error ''Invalid ZAP message'')
   \<and> take 4 [0x5a, 0x41] \<noteq> ZAP_MAGIC
   \<and> decode reference (Binary [0x5a, 0x41]) = Inl (Error ''Invalid ZAP message'')
   \<and> JSON_parse reference ''{bad'' = None
   \<and> decode reference (Text ''{bad'') = Inl SyntaxError"
proof -
  have a: "take 4 [0x5a, 0x41, 0x50, 0x02, 0x03, 0x31] \<noteq> ZAP_MAGIC"
    by (simp add: ZAP_MAGIC_def)
  have b: "take 4 [0x5a, 0x41] \<noteq> ZAP_MAGIC"
    by (simp add: ZAP_MAGIC_def)
  have c: "JSON_parse reference ''{bad'' = None"
    by code_simp
  show ?thesis
    using a b c
      decode_rejects_malformed [of "[0x5a, 0x41, 0x50, 0x02, 0x03, 0x31]" reference "''{bad''"]
      decode_rejects_malformed [of "[0x5a, 0x41]" reference "''{bad''"]
    by blast
qed


text \<open>
  The claim as the specification states it names the error a \<^verbatim>\<open>ProtocolError\<close>. The code
  has no error of that name: its classes are \<^verbatim>\<open>ZapError\<close>, \<^verbatim>\<open>ConnectionError\<close> and
  \<^verbatim>\<open>TimeoutError\<close>, and \<^verbatim>\<open>decode\<close> throws none of them. On a frame with a wrong fourth magic
  byte the error is named \<^verbatim>\<open>Error\<close>, on the text \<^verbatim>\<open>{bad\<close> it is named \<^verbatim>\<open>SyntaxError\<close>, and
  neither carries the code a \<^verbatim>\<open>ZapError\<close> has.
\<close>

lemma no_ProtocolError: "exn_name e \<noteq> ''ProtocolError''"
  by (cases e) simp_all

theorem decode_error_class_counterexample:
  "take 4 [0x5a, 0x41, 0x50, 0x02, 0x03, 0x31] \<noteq> ZAP_MAGIC
   \<and> decode reference (Binary [0x5a, 0x41, 0x50, 0x02, 0x03, 0x31]) = Inl (Error ''Invalid ZAP message'')
   \<and> exn_name (Error ''Invalid ZAP message'') = ''Error''
   \<and> exn_name (Error ''Invalid ZAP message'') \<noteq> ''ProtocolError''
   \<and> exn_code (Error ''Invalid ZAP message'') = None
   \<and> JSON_parse reference ''{bad'' = None
   \<and> decode reference (Text ''{bad'') = Inl SyntaxError
   \<and> exn_name SyntaxError = ''SyntaxError''
   \<and> exn_name SyntaxError \<noteq> ''ProtocolError''
   \<and> exn_code SyntaxError = None"
proof -
  have a: "take 4 [0x5a, 0x41, 0x50, 0x02, 0x03, 0x31] \<noteq> ZAP_MAGIC"
    by (simp add: ZAP_MAGIC_def)
  have b: "decode reference (Binary [0x5a, 0x41, 0x50, 0x02, 0x03, 0x31]) = Inl (Error ''Invalid ZAP message'')"
    using a by (rule decode_bad_magic)
  have c: "JSON_parse reference ''{bad'' = None"
    by code_simp
  have d: "decode reference (Text ''{bad'') = Inl SyntaxError"
    using c by (simp add: decode_def)
  show ?thesis
    using a b c d by simp
qed


subsection \<open>Round trip\<close>

lemma MessageType_byte: "uint (of_nat (MessageType_value ty) :: byte) = int (MessageType_value ty)"
  by (cases ty) simp_all

lemma decode_frame:
  assumes "JSON_parse rt (TextDecoder_decode rt bs) = Some v"
  shows "decode rt (Binary (ZAP_MAGIC @ of_nat (MessageType_value ty) # bs)) =
           Inr \<lparr>ftype = JNum (int (MessageType_value ty)), payload = v\<rparr>"
proof -
  let ?arr = "ZAP_MAGIC @ of_nat (MessageType_value ty) # bs"
  have "take 4 ?arr = ZAP_MAGIC" by (simp add: ZAP_MAGIC_def)
  then have "verify_magic ?arr 0 = None" by (simp add: verify_magic_take)
  moreover have "index ?arr 4 = Some (of_nat (MessageType_value ty))"
    by (simp add: index_def ZAP_MAGIC_def)
  moreover have "drop 5 ?arr = bs" by (simp add: ZAP_MAGIC_def)
  ultimately show ?thesis
    using assms by (simp add: decode_def MessageType_byte)
qed


text \<open>
  Claim C2. For every frame type and every payload that JSON can carry, decoding what
  \<^verbatim>\<open>encode\<close> produced gives back the type (as its number) and the payload, in binary mode
  and in text mode. That JSON can carry a value means that \<^verbatim>\<open>JSON.parse\<close> gives the value
  back from the text \<^verbatim>\<open>JSON.stringify\<close> wrote for it (in text mode: for the record
  \<^verbatim>\<open>{ t, d }\<close> that holds it), and in binary mode that the text survives UTF-8.
\<close>

theorem codec_round_trip:
  "(JSON_stringify rt v = Some json \<and> TextDecoder_decode rt (TextEncoder_encode rt json) = json
      \<and> JSON_parse rt json = Some v
    \<longrightarrow> decode_encode rt \<lparr>binary = True\<rparr> ty v =
          Inr \<lparr>ftype = JNum (int (MessageType_value ty)), payload = v\<rparr>)
   \<and> (JSON_stringify rt (envelope ty v) = Some text \<and> JSON_parse rt text = Some (envelope ty v)
    \<longrightarrow> decode_encode rt \<lparr>binary = False\<rparr> ty v =
          Inr \<lparr>ftype = JNum (int (MessageType_value ty)), payload = v\<rparr>)"
proof (intro conjI impI)
  assume "JSON_stringify rt v = Some json \<and> TextDecoder_decode rt (TextEncoder_encode rt json) = json
      \<and> JSON_parse rt json = Some v"
  then show "decode_encode rt \<lparr>binary = True\<rparr> ty v =
          Inr \<lparr>ftype = JNum (int (MessageType_value ty)), payload = v\<rparr>"
    by (simp add: decode_encode_def encode_def decode_frame)
next
  assume "JSON_stringify rt (envelope ty v) = Some text \<and> JSON_parse rt text = Some (envelope ty v)"
  then show "decode_encode rt \<lparr>binary = False\<rparr> ty v =
          Inr \<lparr>ftype = JNum (int (MessageType_value ty)), payload = v\<rparr>"
    by (simp add: decode_encode_def encode_def decode_def envelope_def js_get_def js_member_def getprop_def)
qed


theorem codec_round_trip_witness:
  "decode_encode reference \<lparr>binary = True\<rparr> Response sample_payload =
     Inr \<lparr>ftype = JNum 4, payload = sample_payload\<rparr>
   \<and> decode_encode reference \<lparr>binary = False\<rparr> Response sample_payload =
     Inr \<lparr>ftype = JNum 4, payload = sample_payload\<rparr>"
proof -
  let ?json = "the (JSON_stringify reference sample_payload)"
  let ?text = "the (JSON_stringify reference (envelope Response sample_payload))"
  have 1: "JSON_stringify reference sample_payload = Some ?json"
    by code_simp
  have 2: "TextDecoder_decode reference (TextEncoder_encode reference ?json) = ?json"
    by code_simp
  have 3: "JSON_parse reference ?json = Some sample_payload"
    by code_simp
  have 4: "JSON_stringify reference (envelope Response sample_payload) = Some ?text"
    by code_simp
  have 5: "JSON_parse reference ?text = Some (envelope Response sample_payload)"
    by code_simp
  show ?thesis
    using 1 2 3 4 5 codec_round_trip [of reference sample_payload ?json Response ?text]
    by simp
qed


subsection \<open>Text frames are not validated\<close>

text \<open>
  Claim C10, as stated, fails: \<^verbatim>\<open>null\<close> is a well-formed JSON text, and on it
  \<^verbatim>\<open>decode\<close> throws a \<^verbatim>\<open>TypeError\<close> when it reads \<^verbatim>\<open>parsed.t\<close>.
\<close>

theorem decode_text_null_counterexample:
  "JSON_parse reference ''null'' = Some JNull \<and> decode reference (Text ''null'') = Inl TypeError"
  by code_simp


text \<open>
  Claim C10, amended. For every well-formed JSON text whose value is not \<^verbatim>\<open>null\<close>,
  text-mode \<^verbatim>\<open>decode\<close> returns \<^verbatim>\<open>{ type: parsed.t, payload: parsed.d }\<close> and throws
  nothing: no shape is checked, and a tag that is absent or outside the defined range is
  passed on as it is (\<^verbatim>\<open>undefined\<close> when absent).
\<close>

theorem decode_text_unvalidated:
  "JSON_parse rt s = Some parsed \<and> \<not> nullish parsed \<longrightarrow>
     decode rt (Text s) = Inr \<lparr>ftype = js_member parsed ''t'', payload = js_member parsed ''d''\<rparr>"
  by (simp add: decode_def js_get_def)


theorem decode_text_unvalidated_witness:
  "JSON_parse reference ''{\"d\":[1,2],\"t\":99}'' = Some (JObj [(''d'', JArr [JNum 1, JNum 2]), (''t'', JNum 99)])
   \<and> decode reference (Text ''{\"d\":[1,2],\"t\":99}'') = Inr \<lparr>ftype = JNum 99, payload = JArr [JNum 1, JNum 2]\<rparr>
   \<and> JSON_parse reference ''{}'' = Some (JObj [])
   \<and> decode reference (Text ''{}'') = Inr \<lparr>ftype = JUndefined, payload = JUndefined\<rparr>
   \<and> JSON_parse reference ''7'' = Some (JNum 7)
   \<and> decode reference (Text ''7'') = Inr \<lparr>ftype = JUndefined, payload = JUndefined\<rparr>"
proof -
  have 1: "JSON_parse reference ''{\"d\":[1,2],\"t\":99}'' = Some (JObj [(''d'', JArr [JNum 1, JNum 2]), (''t'', JNum 99)])"
    by code_simp
  have 2: "JSON_parse reference ''{}'' = Some (JObj [])"
    by code_simp
  have 3: "JSON_parse reference ''7'' = Some (JNum 7)"
    by code_simp
  show ?thesis
    using 1 2 3
      decode_text_unvalidated [of reference "''{\"d\":[1,2],\"t\":99}''" "JObj [(''d'', JArr [JNum 1, JNum 2]), (''t'', JNum 99)]"]
      decode_text_unvalidated [of reference "''{}''" "JObj []"]
      decode_text_unvalidated [of reference "''7''" "JNum 7"]
    by (simp add: js_member_def getprop_def)
qed


section \<open>Properties of the endpoint session\<close>

subsection \<open>Response correlation\<close>

lemma promises_resolve: "promises (resolve p v c) = promises c @ [(p, Inr v)]"
  by (simp add: resolve_def emit_def Let_def)

lemma promises_reject: "promises (reject p e c) = promises c @ [(p, Inl e)]"
  by (simp add: reject_def)

lemma outcome_append:
  "promises c' = promises c @ [(p, x)] \<Longrightarrow>
     outcome c' q = (if q = p \<and> \<not> settled c p then Some x else outcome c q)"
  by (auto simp: outcome_def settled_def map_add_def split: option.splits)

lemma resolve_keeps: "pendingRequests (resolve p v c) = pendingRequests c \<and> timers (resolve p v c) = timers c"
  by (simp add: resolve_def emit_def Let_def)

lemma reject_keeps: "pendingRequests (reject p e c) = pendingRequests c \<and> timers (reject p e c) = timers c"
  by (simp add: reject_def)


text \<open>
  Claim C1. A response whose id is the key of a pending entry removes that entry,
  disarms its timer, and makes exactly one call that settles a promise: the entry's
  \<^verbatim>\<open>resolve\<close> with the response's result, or its \<^verbatim>\<open>reject\<close> with a \<^verbatim>\<open>ZapError\<close> of the
  response's error message and code. That decides the promise unless it was settled
  before, and the outcome of every other promise, every other entry and every other
  timer is as before. A response whose id is the key of no entry (a request that timed
  out, say) leaves the session as it was. \<^verbatim>\<open>handleResponse\<close> has no path that throws.
\<close>

theorem handleResponse_correlation:
  "(map_of (pendingRequests c) (response_id r) = Some p \<longrightarrow>
      map_of (pendingRequests (handleResponse r c)) (response_id r) = None
      \<and> (\<forall>k. k \<noteq> response_id r \<longrightarrow>
            map_of (pendingRequests (handleResponse r c)) k = map_of (pendingRequests c) k)
      \<and> promises (handleResponse r c) =
          promises c @
            [(pending_promise p,
              case response_error r of
                None \<Rightarrow> Inr (response_result r)
              | Some e \<Rightarrow> Inl (ZapError (error_message e) (error_code e)))]
      \<and> (\<not> settled c (pending_promise p) \<longrightarrow>
            outcome (handleResponse r c) (pending_promise p) =
              Some (case response_error r of
                      None \<Rightarrow> Inr (response_result r)
                    | Some e \<Rightarrow> Inl (ZapError (error_message e) (error_code e))))
      \<and> (\<forall>q. q \<noteq> pending_promise p \<longrightarrow> outcome (handleResponse r c) q = outcome c q)
      \<and> timers (handleResponse r c) = filter (\<lambda>t. fst t \<noteq> pending_timeout p) (timers c))
   \<and> (map_of (pendingRequests c) (response_id r) = None \<longrightarrow> handleResponse r c = c)"
proof -
  have none: "handleResponse r c = c" if "map_of (pendingRequests c) (response_id r) = None"
    using that by (simp add: handleResponse_def)
  have some:
    "map_of (pendingRequests (handleResponse r c)) (response_id r) = None
      \<and> (\<forall>k. k \<noteq> response_id r \<longrightarrow>
            map_of (pendingRequests (handleResponse r c)) k = map_of (pendingRequests c) k)
      \<and> promises (handleResponse r c) =
          promises c @
            [(pending_promise p,
              case response_error r of
                None \<Rightarrow> Inr (response_result r)
              | Some e \<Rightarrow> Inl (ZapError (error_message e) (error_code e)))]
      \<and> (\<not> settled c (pending_promise p) \<longrightarrow>
            outcome (handleResponse r c) (pending_promise p) =
              Some (case response_error r of
                      None \<Rightarrow> Inr (response_result r)
                    | Some e \<Rightarrow> Inl (ZapError (error_message e) (error_code e))))
      \<and> (\<forall>q. q \<noteq> pending_promise p \<longrightarrow> outcome (handleResponse r c) q = outcome c q)
      \<and> timers (handleResponse r c) = filter (\<lambda>t. fst t \<noteq> pending_timeout p) (timers c)"
    if p: "map_of (pendingRequests c) (response_id r) = Some p"
  proof -
    let ?c2 = "(clearTimeout (pending_timeout p) c)
                 \<lparr>pendingRequests := AList.delete (response_id r) (pendingRequests c)\<rparr>"
    let ?x = "case response_error r of
                None \<Rightarrow> Inr (response_result r)
              | Some e \<Rightarrow> Inl (ZapError (error_message e) (error_code e))"
    have h: "handleResponse r c =
               (case response_error r of
                  Some e \<Rightarrow> reject (pending_promise p) (ZapError (error_message e) (error_code e)) ?c2
                | None \<Rightarrow> resolve (pending_promise p) (response_result r) ?c2)"
      using p by (simp add: handleResponse_def clearTimeout_def Let_def split: option.split)
    have pr: "promises ?c2 = promises c"
      by (simp add: clearTimeout_def)
    have 1: "map_of (pendingRequests (handleResponse r c)) (response_id r) = None"
      by (simp add: h resolve_keeps reject_keeps delete_conv split: option.split)
    have 2: "map_of (pendingRequests (handleResponse r c)) k = map_of (pendingRequests c) k"
      if "k \<noteq> response_id r" for k
      using that by (simp add: h resolve_keeps reject_keeps delete_conv split: option.split)
    have 3: "promises (handleResponse r c) = promises c @ [(pending_promise p, ?x)]"
      by (simp add: h promises_resolve promises_reject pr split: option.split)
    have 4: "outcome (handleResponse r c) (pending_promise p) = Some ?x"
      if "\<not> settled c (pending_promise p)"
      using that outcome_append [OF 3, of "pending_promise p"] by simp
    have 5: "outcome (handleResponse r c) q = outcome c q" if "q \<noteq> pending_promise p" for q
      using that outcome_append [OF 3, of q] by simp
    have 6: "timers (handleResponse r c) = filter (\<lambda>t. fst t \<noteq> pending_timeout p) (timers c)"
      by (simp add: h resolve_keeps reject_keeps clearTimeout_def split: option.split)
    show ?thesis using 1 2 3 4 5 6 by blast
  qed
  show ?thesis using none some by blast
qed

theorem handleResponse_correlation_witness:
  "map_of (pendingRequests two_requests) ''B'' = Some \<lparr>pending_promise = 6, pending_timeout = 7\<rparr>
   \<and> map_of (pendingRequests (handleResponse reply_B two_requests)) ''B'' = None
   \<and> map_of (pendingRequests (handleResponse reply_B two_requests)) ''A''
       = Some \<lparr>pending_promise = 4, pending_timeout = 5\<rparr>
   \<and> promises (handleResponse reply_B two_requests)
       = [(1, Inr JUndefined), (6, Inr (JObj [(''content'', JArr [])]))]
   \<and> outcome (handleResponse reply_B two_requests) 6 = Some (Inr (JObj [(''content'', JArr [])]))
   \<and> outcome (handleResponse reply_B two_requests) 4 = None
   \<and> timers (handleResponse reply_B two_requests) = [(5, 30000, RequestTimeout ''A'' ''tools/list'' 4)]
   \<and> outcome (handleResponse reply_A (handleResponse reply_B two_requests)) 4
       = Some (Inl (ZapError ''Method not found'' (NumCode (- 32601))))
   \<and> outcome (handleResponse reply_A (handleResponse reply_B two_requests)) 6
       = Some (Inr (JObj [(''content'', JArr [])]))
   \<and> map_of (pendingRequests two_requests) ''Z'' = None
   \<and> handleResponse late_reply two_requests = two_requests"
proof -
  let ?c = "handleResponse reply_B two_requests"
  have b: "map_of (pendingRequests two_requests) (response_id reply_B)
             = Some \<lparr>pending_promise = 6, pending_timeout = 7\<rparr>"
    by code_simp
  have a: "map_of (pendingRequests ?c) (response_id reply_A)
             = Some \<lparr>pending_promise = 4, pending_timeout = 5\<rparr>"
    by code_simp
  have z: "map_of (pendingRequests two_requests) (response_id late_reply) = None"
    by code_simp
  have u: "\<not> settled two_requests 6" "\<not> settled ?c 4" "outcome two_requests 4 = None"
    "promises two_requests = [(1, Inr JUndefined)]"
    "timers two_requests = [(5, 30000, RequestTimeout ''A'' ''tools/list'' 4), (7, 30000, RequestTimeout ''B'' ''tools/call'' 6)]"
    by code_simp+
  have ids: "response_id reply_B = ''B''" "response_id reply_A = ''A''" "response_id late_reply = ''Z''"
    by (simp_all add: reply_A_def reply_B_def late_reply_def)
  have r: "response_error reply_B = None" "response_result reply_B = JObj [(''content'', JArr [])]"
    "response_error reply_A = Some \<lparr>error_code = NumCode (- 32601), error_message = ''Method not found'', error_data = JNull\<rparr>"
    by (simp_all add: reply_A_def reply_B_def)
  note B = handleResponse_correlation [of two_requests reply_B "\<lparr>pending_promise = 6, pending_timeout = 7\<rparr>"]
  note A = handleResponse_correlation [of ?c reply_A "\<lparr>pending_promise = 4, pending_timeout = 5\<rparr>"]
  note Z = handleResponse_correlation [of two_requests late_reply undefined]
  from B b have B':
    "map_of (pendingRequests ?c) ''B'' = None
     \<and> map_of (pendingRequests ?c) ''A'' = map_of (pendingRequests two_requests) ''A''
     \<and> promises ?c = promises two_requests @ [(6, Inr (JObj [(''content'', JArr [])]))]
     \<and> outcome ?c 6 = Some (Inr (JObj [(''content'', JArr [])]))
     \<and> outcome ?c 4 = outcome two_requests 4
     \<and> timers ?c = filter (\<lambda>t. fst t \<noteq> 7) (timers two_requests)"
    using u(1) by (simp add: ids r)
  from A a have A':
    "outcome (handleResponse reply_A ?c) 4 = Some (Inl (ZapError ''Method not found'' (NumCode (- 32601))))
     \<and> outcome (handleResponse reply_A ?c) 6 = outcome ?c 6"
    using u(2) by (simp add: ids r)
  from Z z have Z': "handleResponse late_reply two_requests = two_requests"
    by simp
  have a': "map_of (pendingRequests two_requests) ''A'' = Some \<lparr>pending_promise = 4, pending_timeout = 5\<rparr>"
    by code_simp
  show ?thesis
    using b z u A' B' Z' a' by (simp add: ids)
qed

subsection \<open>Reconnection\<close>

lemma setTimeout_eq:
  "setTimeout cb d c =
     (next_handle c, c\<lparr>next_handle := next_handle c + 1, timers := timers c @ [(next_handle c, d, cb)]\<rparr>)"
  by (simp add: setTimeout_def fresh_def)


text \<open>
  \<^verbatim>\<open>scheduleReconnect\<close> by itself: below the ceiling it enters \<open>Reconnecting\<close>, increments the
  attempt counter and then arms one timer, whose delay is the base interval times two to
  the power of the new counter less one; at the ceiling it arms no timer and emits one
  error event. The close handler of a session that is \<open>Connected\<close>, with auto-reconnect on
  and a url stored, calls it after reporting the disconnect, and it is called from
  nowhere else.
\<close>

lemma scheduleReconnect_effect:
  "(int (reconnectAttempts c) < maxReconnectAttempts (options c) \<longrightarrow>
      reconnectAttempts (scheduleReconnect c) = reconnectAttempts c + 1
      \<and> state (scheduleReconnect c) = Reconnecting
      \<and> timers (scheduleReconnect c) =
          timers c @ [(next_handle c,
                       reconnectInterval (options c) * 2 ^ (reconnectAttempts (scheduleReconnect c) - 1),
                       ReconnectAttempt)]
      \<and> reconnectTimeout (scheduleReconnect c) = Some (next_handle c)
      \<and> emitted (scheduleReconnect c) = emitted c)
   \<and> (maxReconnectAttempts (options c) \<le> int (reconnectAttempts c) \<longrightarrow>
      scheduleReconnect c =
        c\<lparr>emitted := emitted c @ [ErrorEvent (ConnectionError ''Max reconnect attempts reached'')]\<rparr>)
   \<and> (map_of (sockets c) k = Some s \<and> state c = Connected \<and> autoReconnect (options c)
        \<and> url c = Some u \<and> u \<noteq> [] \<longrightarrow>
      ws_onclose k c =
        scheduleReconnect
          (emit (DisconnectEvent True) ((set_readyState k CLOSED c)\<lparr>state := Disconnected\<rparr>)))
   \<and> maxReconnectAttempts (default_options cid) = 5"
proof -
  have 1: "reconnectAttempts (scheduleReconnect c) = reconnectAttempts c + 1
      \<and> state (scheduleReconnect c) = Reconnecting
      \<and> timers (scheduleReconnect c) =
          timers c @ [(next_handle c,
                       reconnectInterval (options c) * 2 ^ (reconnectAttempts (scheduleReconnect c) - 1),
                       ReconnectAttempt)]
      \<and> reconnectTimeout (scheduleReconnect c) = Some (next_handle c)
      \<and> emitted (scheduleReconnect c) = emitted c"
    if "int (reconnectAttempts c) < maxReconnectAttempts (options c)"
    using that by (simp add: scheduleReconnect_def setTimeout_eq Let_def)
  have 2: "scheduleReconnect c =
        c\<lparr>emitted := emitted c @ [ErrorEvent (ConnectionError ''Max reconnect attempts reached'')]\<rparr>"
    if "maxReconnectAttempts (options c) \<le> int (reconnectAttempts c)"
    using that by (simp add: scheduleReconnect_def emit_def)
  have 3: "ws_onclose k c =
        scheduleReconnect
          (emit (DisconnectEvent True) ((set_readyState k CLOSED c)\<lparr>state := Disconnected\<rparr>))"
    if "map_of (sockets c) k = Some s \<and> state c = Connected \<and> autoReconnect (options c)
        \<and> url c = Some u \<and> u \<noteq> []"
    using that by (simp add: ws_onclose_def Let_def set_readyState_def emit_def)
  have 4: "maxReconnectAttempts (default_options cid) = 5"
    by (simp add: default_options_def)
  show ?thesis using 1 2 3 4 by blast
qed


text \<open>
  Claim C4 does not hold of the code. The backoff schedule ends with its first attempt,
  and reaching the ceiling is not reported. A client constructed with a ceiling of 1
  connects and loses its socket: the counter goes to 1, the ceiling, and the first
  attempt is armed after the base interval. The attempt fails. The close handler then
  finds the session \<open>Connecting\<close>, not \<open>Connected\<close>, and does not call \<^verbatim>\<open>scheduleReconnect\<close>: the
  session is \<open>Disconnected\<close> with no timer armed, its counter at the ceiling, and the error
  event of the ceiling was not emitted, which is what \<^verbatim>\<open>scheduleReconnect\<close> would have done.
\<close>

theorem backoff_ends_after_first_attempt:
  "maxReconnectAttempts (options single_attempt_connected) = 1
   \<and> isConnected single_attempt_connected
   \<and> reconnectAttempts single_attempt_connected = 0
   \<and> state single_attempt_dropped = Reconnecting
   \<and> reconnectAttempts single_attempt_dropped = 1
   \<and> timers single_attempt_dropped = [(4, 1000, ReconnectAttempt)]
   \<and> state single_attempt_failed = Disconnected
   \<and> reconnectAttempts single_attempt_failed = 1
   \<and> timers single_attempt_failed = []
   \<and> emitted single_attempt_failed =
        [ConnectEvent accepting, DisconnectEvent True,
         ErrorEvent (ConnectionError ''WebSocket error''), DisconnectEvent False]
   \<and> emitted (scheduleReconnect single_attempt_failed) =
        [ConnectEvent accepting, DisconnectEvent True,
         ErrorEvent (ConnectionError ''WebSocket error''), DisconnectEvent False,
         ErrorEvent (ConnectionError ''Max reconnect attempts reached'')]"
  by code_simp


subsection \<open>Pending requests when the transport closes\<close>

lemma ws_onclose_keeps_pending:
  "pendingRequests (ws_onclose k c) = pendingRequests c \<and> promises (ws_onclose k c) = promises c"
  by (simp add: ws_onclose_def scheduleReconnect_def setTimeout_eq emit_def set_readyState_def Let_def
      split: option.split)


text \<open>
  Claim C3 does not hold of the code. The close handler leaves the pending table and
  every promise as they are: after an unexpected close of a session with the requests
  \<open>A\<close> and \<open>B\<close> in flight the session is \<open>Reconnecting\<close>, both entries are still in the
  table, neither promise is rejected, and the requests' timers are still armed.
  \<^verbatim>\<open>close()\<close>, the other way out of \<open>Connected\<close>, rejects both and clears the table.
\<close>

theorem unexpected_close_keeps_pending:
  "isConnected two_requests
   \<and> map fst (pendingRequests two_requests) = [''A'', ''B'']
   \<and> state (ws_onclose 3 two_requests) = Reconnecting
   \<and> map fst (pendingRequests (ws_onclose 3 two_requests)) = [''A'', ''B'']
   \<and> outcome (ws_onclose 3 two_requests) 4 = None
   \<and> outcome (ws_onclose 3 two_requests) 6 = None
   \<and> map fst (timers (ws_onclose 3 two_requests)) = [5, 7, 8]
   \<and> state (close two_requests) = Disconnected
   \<and> pendingRequests (close two_requests) = []
   \<and> outcome (close two_requests) 4 = Some (Inl (ConnectionError ''Connection closed''))
   \<and> outcome (close two_requests) 6 = Some (Inl (ConnectionError ''Connection closed''))"
  by code_simp


subsection \<open>A reconnection attempt that fails\<close>

lemma ws_onclose_not_connected:
  "state c \<noteq> Connected \<Longrightarrow> timers (ws_onclose k c) = timers c \<and> reconnectAttempts (ws_onclose k c) = reconnectAttempts c"
  by (simp add: ws_onclose_def emit_def set_readyState_def Let_def split: option.split)


text \<open>
  Claim C5 does not hold of the code. A reconnection attempt that fails does reach the
  close handler, but the session is then \<open>Connecting\<close>, not \<open>Connected\<close>, and the handler
  schedules nothing: after the first attempt failed the session is \<open>Disconnected\<close> with no
  timer armed, one attempt made of the five allowed and no error event about the ceiling.
\<close>

theorem failed_reconnect_not_retried:
  "state dropped_session = Reconnecting
   \<and> reconnectAttempts dropped_session = 1
   \<and> timers dropped_session = [(4, 1000, ReconnectAttempt)]
   \<and> state retrying_session = Connecting
   \<and> ws retrying_session = Some 7
   \<and> awaited_by_reconnect retrying_session = [5]
   \<and> state failed_retry = Disconnected
   \<and> outcome failed_retry 5 = Some (Inl (ConnectionError ''WebSocket error''))
   \<and> timers failed_retry = []
   \<and> reconnectAttempts failed_retry = 1
   \<and> maxReconnectAttempts (options failed_retry) = 5
   \<and> emitted failed_retry =
        [ConnectEvent accepting, DisconnectEvent True,
         ErrorEvent (ConnectionError ''WebSocket error''), DisconnectEvent False]"
  by code_simp


text \<open>An attempt that succeeds resets the counter and emits \<^verbatim>\<open>'reconnect'\<close>.\<close>

lemma reconnected: "state reconnected_session = Connected \<and> reconnectAttempts reconnected_session = 0
  \<and> emitted reconnected_session = [ConnectEvent accepting, DisconnectEvent True, ConnectEvent accepting, ReconnectEvent 0]"
  by code_simp


text \<open>
  No reachable state has counted more than one attempt: the counter is reset whenever
  the session becomes \<open>Connected\<close>, and only a close from \<open>Connected\<close> increments it. With a
  ceiling above 1 the second and later attempts of the backoff schedule, and its ceiling,
  are never reached.
\<close>

lemma resolve_attempts [simp]:
  "state (resolve p v c) = state c" "reconnectAttempts (resolve p v c) = reconnectAttempts c"
  by (simp_all add: resolve_def emit_def Let_def)

lemma reject_attempts [simp]:
  "state (reject p e c) = state c" "reconnectAttempts (reject p e c) = reconnectAttempts c"
  by (simp_all add: reject_def)

lemma clearTimeout_attempts [simp]:
  "state (clearTimeout h c) = state c" "reconnectAttempts (clearTimeout h c) = reconnectAttempts c"
  by (simp_all add: clearTimeout_def)

lemma send_attempts [simp]:
  "state (send d c) = state c" "reconnectAttempts (send d c) = reconnectAttempts c"
  by (simp_all add: send_def split: option.split)

lemma emit_attempts [simp]:
  "state (emit ev c) = state c" "reconnectAttempts (emit ev c) = reconnectAttempts c"
  by (simp_all add: emit_def)

lemma set_readyState_attempts [simp]:
  "state (set_readyState k r c) = state c" "reconnectAttempts (set_readyState k r c) = reconnectAttempts c"
  by (simp_all add: set_readyState_def)

lemma ws_close_attempts [simp]:
  "state (ws_close k c) = state c" "reconnectAttempts (ws_close k c) = reconnectAttempts c"
  by (simp_all add: ws_close_def)

lemma connect_attempts:
  "attempts_ok c \<Longrightarrow> attempts_ok (snd (connect rt u c))"
  by (auto simp: attempts_ok_def connect_def setTimeout_eq fresh_def Let_def split: option.split)

lemma request_attempts:
  "attempts_ok c \<Longrightarrow> attempts_ok (snd (request rt method params rid c))"
  by (auto simp: attempts_ok_def request_def setTimeout_eq fresh_def Let_def)

lemma fold_reject_attempts:
  "reconnectAttempts (fold reject_pending xs c) = reconnectAttempts c"
  by (induction xs arbitrary: c) (simp_all add: reject_pending_def)

lemma close_attempts:
  "attempts_ok c \<Longrightarrow> attempts_ok (close c)"
  by (simp add: attempts_ok_def close_def fold_reject_attempts Let_def split: option.split)

lemma onopen_attempts:
  "attempts_ok c \<Longrightarrow> attempts_ok (ws_onopen rt k c)"
  by (auto simp: attempts_ok_def ws_onopen_def Let_def split: option.split)

lemma handleResponse_attempts:
  "state (handleResponse r c) = state c \<and> reconnectAttempts (handleResponse r c) = reconnectAttempts c"
  by (simp add: handleResponse_def Let_def split: option.split)

lemma onmessage_attempts:
  "attempts_ok c \<Longrightarrow> attempts_ok (ws_onmessage k msg c)"
  by (cases msg) (auto simp: attempts_ok_def ws_onmessage_def handleResponse_attempts Let_def split: option.split)

lemma onerror_attempts:
  "attempts_ok c \<Longrightarrow> attempts_ok (ws_onerror k c)"
  by (auto simp: attempts_ok_def ws_onerror_def Let_def split: option.split)

lemma onclose_attempts:
  "attempts_ok c \<Longrightarrow> attempts_ok (ws_onclose k c)"
  by (auto simp: attempts_ok_def ws_onclose_def scheduleReconnect_def setTimeout_eq Let_def split: option.split)

lemma timer_attempts:
  "attempts_ok c \<Longrightarrow> attempts_ok (timer_fires rt h c)"
proof -
  assume ok: "attempts_ok c"
  have cl: "attempts_ok (clearTimeout h c)"
    using ok by (simp add: attempts_ok_def)
  have run: "attempts_ok (run_callback rt cb d)" if "attempts_ok d" for cb d
  proof (cases cb)
    case (ConnectTimeout p)
    with that show ?thesis by (auto simp: run_callback_def attempts_ok_def)
  next
    case (RequestTimeout rid m p)
    with that show ?thesis by (auto simp: run_callback_def attempts_ok_def)
  next
    case ReconnectAttempt
    have "attempts_ok
            (case connect rt u d of
               (Inl e, c1) \<Rightarrow> c1
             | (Inr p, c1) \<Rightarrow>
                 if settled c1 p then c1
                 else c1\<lparr>awaited_by_reconnect := p # awaited_by_reconnect c1\<rparr>)" for u
    proof (cases "connect rt u d")
      case (Pair a b)
      have "attempts_ok b"
        using connect_attempts [OF that, of rt u] Pair by simp
      then show ?thesis
        using Pair by (cases a) (auto simp: attempts_ok_def)
    qed
    then show ?thesis
      using that ReconnectAttempt by (simp add: run_callback_def split: option.split)
  qed
  show ?thesis
    using ok cl run by (auto simp: timer_fires_def split: option.split)
qed

lemma reachable_attempts: "reachable rt c \<Longrightarrow> attempts_ok c"
proof (induction rule: reachable.induct)
  case (created opts)
  show ?case by (simp add: attempts_ok_def new_ZapClient_def)
qed (simp_all add: connect_attempts request_attempts close_attempts onopen_attempts
      onmessage_attempts onerror_attempts onclose_attempts timer_attempts)

lemma attempt_counter_bound:
  "reachable rt c \<longrightarrow> reconnectAttempts c \<le> 1 \<and> (state c = Connected \<longrightarrow> reconnectAttempts c = 0)"
  using reachable_attempts [of rt c] by (simp add: attempts_ok_def)

lemma failed_retry_reachable: "reachable reference failed_retry"
  unfolding failed_retry_def retrying_session_def dropped_session_def connected_session_def
  by (intro reachable.intros)

lemma attempt_counter_bound_example:
  "reachable reference failed_retry \<and> reconnectAttempts failed_retry \<le> 1
   \<and> maxReconnectAttempts (options failed_retry) = 5"
proof -
  have "maxReconnectAttempts (options failed_retry) = 5"
    by code_simp
  then show ?thesis
    using failed_retry_reachable attempt_counter_bound [of reference failed_retry] by simp
qed

text \<open>
  Nor does any other run go further. In every reachable state each reconnection timer
  that is armed waits the base interval, the delay of a first attempt, and with a ceiling
  of at least 1 the error event of the ceiling has not been emitted: the close handler
  calls \<^verbatim>\<open>scheduleReconnect\<close> only from \<open>Connected\<close>, where the counter is 0.
\<close>

lemma resolve_first [simp]:
  "options (resolve p v c) = options c" "timers (resolve p v c) = timers c"
  "set (emitted (resolve p v c)) \<subseteq> set (emitted c) \<union> {ReconnectEvent (reconnectAttempts c)}"
  by (auto simp: resolve_def emit_def Let_def)

lemma reject_first [simp]:
  "options (reject p e c) = options c" "timers (reject p e c) = timers c"
  "emitted (reject p e c) = emitted c"
  by (simp_all add: reject_def)

lemma clearTimeout_first [simp]:
  "options (clearTimeout h c) = options c" "set (timers (clearTimeout h c)) \<subseteq> set (timers c)"
  "emitted (clearTimeout h c) = emitted c"
  by (auto simp: clearTimeout_def)

lemma send_first [simp]:
  "options (send d c) = options c" "timers (send d c) = timers c" "emitted (send d c) = emitted c"
  by (simp_all add: send_def split: option.split)

lemma set_readyState_first [simp]:
  "options (set_readyState k r c) = options c" "timers (set_readyState k r c) = timers c"
  "emitted (set_readyState k r c) = emitted c"
  by (simp_all add: set_readyState_def)

lemma ws_close_first [simp]:
  "options (ws_close k c) = options c" "timers (ws_close k c) = timers c"
  "emitted (ws_close k c) = emitted c"
  by (simp_all add: ws_close_def)

lemma connect_first:
  "first_attempt_only c \<Longrightarrow> first_attempt_only (snd (connect rt u c))"
  by (auto simp: first_attempt_only_def connect_def setTimeout_eq fresh_def clearTimeout_def Let_def split: option.split)

lemma request_first:
  "first_attempt_only c \<Longrightarrow> first_attempt_only (snd (request rt m params rid c))"
  by (auto simp: first_attempt_only_def request_def setTimeout_eq fresh_def Let_def)

lemma fold_reject_first:
  "options (fold reject_pending xs c) = options c \<and> emitted (fold reject_pending xs c) = emitted c
   \<and> set (timers (fold reject_pending xs c)) \<subseteq> set (timers c)"
proof (induction xs arbitrary: c)
  case Nil show ?case by simp
next
  case (Cons x xs)
  show ?case using Cons [of "reject_pending x c"] 
    by (auto simp: reject_pending_def clearTimeout_def)
qed

lemma close_first:
  "first_attempt_only c \<Longrightarrow> first_attempt_only (close c)"
proof -
  assume a: "first_attempt_only c"
  define c1 where "c1 = (case reconnectTimeout c of
                  Some t \<Rightarrow> (clearTimeout t c)\<lparr>reconnectTimeout := None\<rparr>
                | None \<Rightarrow> c)"
  define c2 where "c2 = (case ws c1 of Some k \<Rightarrow> (ws_close k c1)\<lparr>ws := None\<rparr> | None \<Rightarrow> c1)"
  have 1: "options c1 = options c \<and> emitted c1 = emitted c \<and> set (timers c1) \<subseteq> set (timers c)"
    by (auto simp: c1_def clearTimeout_def split: option.split)
  have 2: "options c2 = options c1 \<and> emitted c2 = emitted c1 \<and> timers c2 = timers c1"
    by (auto simp: c2_def split: option.split)
  have 3: "close c = (fold reject_pending (pendingRequests c2) c2)\<lparr>pendingRequests := [], state := Disconnected\<rparr>"
    by (simp only: close_def Let_def c2_def c1_def)
  show ?thesis
    using a 1 2 fold_reject_first [of "pendingRequests c2" c2]
    unfolding 3 first_attempt_only_def by (auto simp del: fold_simps)
qed

lemma onopen_first:
  "first_attempt_only c \<Longrightarrow> first_attempt_only (ws_onopen rt k c)"
  by (auto simp: first_attempt_only_def ws_onopen_def Let_def split: option.split)

lemma handleResponse_first:
  "first_attempt_only c \<Longrightarrow> first_attempt_only (handleResponse r c)"
  by (auto simp: first_attempt_only_def handleResponse_def Let_def resolve_def emit_def reject_def clearTimeout_def split: option.split)

lemma onmessage_first:
  "first_attempt_only c \<Longrightarrow> first_attempt_only (ws_onmessage k msg c)"
  by (cases msg) (auto simp: first_attempt_only_def ws_onmessage_def handleResponse_first [unfolded first_attempt_only_def] resolve_def emit_def reject_def clearTimeout_def Let_def split: option.split)

lemma onerror_first:
  "first_attempt_only c \<Longrightarrow> first_attempt_only (ws_onerror k c)"
  by (auto simp: first_attempt_only_def ws_onerror_def emit_def clearTimeout_def Let_def split: option.split)

lemma onclose_first:
  "attempts_ok c \<Longrightarrow> first_attempt_only c \<Longrightarrow> first_attempt_only (ws_onclose k c)"
  by (auto simp: attempts_ok_def first_attempt_only_def ws_onclose_def scheduleReconnect_def setTimeout_eq emit_def Let_def split: option.split)

lemma timer_first:
  "first_attempt_only c \<Longrightarrow> first_attempt_only (timer_fires rt h c)"
proof -
  assume ok: "first_attempt_only c"
  have cl: "first_attempt_only (clearTimeout h c)"
    using ok by (auto simp: first_attempt_only_def clearTimeout_def)
  have run: "first_attempt_only (run_callback rt cb d)" if "first_attempt_only d" for cb d
  proof (cases cb)
    case (ConnectTimeout p)
    with that show ?thesis by (auto simp: run_callback_def first_attempt_only_def)
  next
    case (RequestTimeout rid m p)
    with that show ?thesis by (auto simp: run_callback_def first_attempt_only_def)
  next
    case ReconnectAttempt
    have "first_attempt_only
            (case connect rt u d of
               (Inl e, c1) \<Rightarrow> c1
             | (Inr p, c1) \<Rightarrow>
                 if settled c1 p then c1
                 else c1\<lparr>awaited_by_reconnect := p # awaited_by_reconnect c1\<rparr>)" for u
    proof (cases "connect rt u d")
      case (Pair a b)
      have "first_attempt_only b"
        using connect_first [OF that, of rt u] Pair by simp
      then show ?thesis
        using Pair by (cases a) (auto simp: first_attempt_only_def)
    qed
    then show ?thesis
      using that ReconnectAttempt by (simp add: run_callback_def split: option.split)
  qed
  show ?thesis
    using ok cl run by (auto simp: timer_fires_def split: option.split)
qed

lemma reachable_first_attempt: "reachable rt c \<Longrightarrow> first_attempt_only c"
proof (induction rule: reachable.induct)
  case (created opts)
  show ?case by (simp add: first_attempt_only_def new_ZapClient_def)
next
  case (socket_closed c k)
  then show ?case using reachable_attempts [of rt c] by (simp add: onclose_first)
qed (simp_all add: connect_first request_first close_first onopen_first
      onmessage_first onerror_first timer_first)

lemma reconnect_delay_is_base:
  "reachable rt c \<longrightarrow> (h, d, ReconnectAttempt) \<in> set (timers c) \<longrightarrow> d = reconnectInterval (options c)"
proof (intro impI)
  assume r: "reachable rt c" and t: "(h, d, ReconnectAttempt) \<in> set (timers c)"
  from reachable_first_attempt [OF r]
  have "\<forall>t \<in> set (timers c).
          snd (snd t) = ReconnectAttempt \<longrightarrow> fst (snd t) = reconnectInterval (options c)"
    by (simp add: first_attempt_only_def)
  from this t
  have "snd (snd (h, d, ReconnectAttempt)) = ReconnectAttempt
          \<longrightarrow> fst (snd (h, d, ReconnectAttempt)) = reconnectInterval (options c)"
    by (rule bspec)
  then show "d = reconnectInterval (options c)" by simp
qed

lemma ceiling_error_never_emitted:
  "reachable rt c \<longrightarrow> 1 \<le> maxReconnectAttempts (options c) \<longrightarrow>
     ErrorEvent (ConnectionError ''Max reconnect attempts reached'') \<notin> set (emitted c)"
  using reachable_first_attempt [of rt c] by (simp add: first_attempt_only_def)

lemma single_attempt_failed_reachable: "reachable reference single_attempt_failed"
  unfolding single_attempt_failed_def single_attempt_dropped_def single_attempt_connected_def
  by (intro reachable.intros)

lemma ceiling_error_never_emitted_example:
  "reachable reference single_attempt_failed
   \<and> maxReconnectAttempts (options single_attempt_failed) = 1
   \<and> reconnectAttempts single_attempt_failed = 1
   \<and> ErrorEvent (ConnectionError ''Max reconnect attempts reached'') \<notin> set (emitted single_attempt_failed)"
proof -
  have "maxReconnectAttempts (options single_attempt_failed) = 1" "reconnectAttempts single_attempt_failed = 1"
    by code_simp+
  then show ?thesis
    using single_attempt_failed_reachable ceiling_error_never_emitted [of reference single_attempt_failed]
    by simp
qed

section \<open>Properties of the session manager\<close>

lemma find_hd_filter: "filter P xs \<noteq> [] \<Longrightarrow> find P xs = Some (hd (filter P xs))"
  by (induction xs) auto

lemma mcps_with_url:
  "filter (\<lambda>i. mcp_url i = u) (mcps m) =
     map info (filter (\<lambda>c. mcp_url (info c) = u \<and> connected c) (connections m))"
  by (induction "connections m") (auto simp: mcps_def filter_map comp_def conj_commute)


text \<open>
  Claim C6, as stated, fails: two \<^verbatim>\<open>connectMcp\<close> calls for one url, the second begun
  before the first has stored its record, construct two sessions and store two connected
  records with that url under different ids; the callers get different records.
\<close>

theorem concurrent_connectMcp_counterexample:
  "fst (connectMcp_begin endpoint (new_ZapExtensionClient ''ext-1'')) = Inr 1
   \<and> fst (connectMcp_begin endpoint first_begun) = Inr 2
   \<and> sessions both_connected = [(1, endpoint), (2, endpoint)]
   \<and> map mcp_id (mcps both_connected) = [''ext-a'', ''ext-b'']
   \<and> map mcp_url (mcps both_connected) = [endpoint, endpoint]
   \<and> map connected (connections both_connected) = [True, True]
   \<and> fst (connectMcp_end reference 1 endpoint (Inr [nav_tool]) ''ext-a'' both_begun)
        \<noteq> fst (connectMcp_end reference 2 endpoint (Inr [nav_tool]) ''ext-b''
                 (snd (connectMcp_end reference 1 endpoint (Inr [nav_tool]) ''ext-a'' both_begun)))"
  by code_simp


text \<open>
  Claim C6, amended. When a connection with the url is marked connected,
  \<^verbatim>\<open>connectMcp(url)\<close> returns the record of the first such connection, constructs no
  session and leaves the manager as it was.
\<close>

theorem connectMcp_existing:
  "filter (\<lambda>i. mcp_url i = u) (mcps m) \<noteq> [] \<longrightarrow>
     connectMcp_begin u m = (Inl (hd (filter (\<lambda>i. mcp_url i = u) (mcps m))), m)"
proof
  assume ne: "filter (\<lambda>i. mcp_url i = u) (mcps m) \<noteq> []"
  let ?P = "\<lambda>c. mcp_url (info c) = u \<and> connected c"
  from ne have ne': "filter ?P (connections m) \<noteq> []"
    by (simp add: mcps_with_url)
  then have "find ?P (connections m) = Some (hd (filter ?P (connections m)))"
    by (rule find_hd_filter)
  moreover have "info (hd (filter ?P (connections m))) = hd (filter (\<lambda>i. mcp_url i = u) (mcps m))"
    using ne' by (simp add: mcps_with_url hd_map)
  ultimately show "connectMcp_begin u m = (Inl (hd (filter (\<lambda>i. mcp_url i = u) (mcps m))), m)"
    by (simp add: connectMcp_begin_def)
qed


theorem connectMcp_existing_witness:
  "fst (connectMcp_begin endpoint (new_ZapExtensionClient ''ext-1'')) = Inr 1
   \<and> map mcp_id (filter (\<lambda>i. mcp_url i = endpoint) (mcps first_connected)) = [''ext-a'']
   \<and> map_option mcp_id (case fst (connectMcp_begin endpoint first_connected) of Inl i \<Rightarrow> Some i | Inr h \<Rightarrow> None)
        = Some ''ext-a''
   \<and> snd (connectMcp_begin endpoint first_connected) = first_connected
   \<and> sessions (snd (connectMcp_begin endpoint first_connected)) = [(1, endpoint)]"
proof -
  have a: "fst (connectMcp_begin endpoint (new_ZapExtensionClient ''ext-1'')) = Inr 1"
    by code_simp
  have b: "filter (\<lambda>i. mcp_url i = endpoint) (mcps first_connected) \<noteq> []"
    by code_simp
  have c: "map mcp_id (filter (\<lambda>i. mcp_url i = endpoint) (mcps first_connected)) = [''ext-a'']"
    by code_simp
  have d: "sessions first_connected = [(1, endpoint)]"
    by code_simp
  have e: "mcp_id (hd (filter (\<lambda>i. mcp_url i = endpoint) (mcps first_connected))) = ''ext-a''"
    by code_simp
  show ?thesis
    using a b c d e connectMcp_existing [of endpoint first_connected] by simp
qed


section \<open>Properties of the command router\<close>

lemma relay_no_client:
  "clients s = [] \<Longrightarrow> relay rt method ps k s = (Throws (Error ''No browser extension connected''), s)"
  by (simp add: relay_def sendRaw_def)

lemma relay_client:
  "clients s \<noteq> [] \<Longrightarrow>
     relay rt method ps k s =
       (AwaitsCommand (commandId s + 1) k,
        s\<lparr>commandId := commandId s + 1, pendingCommands := pendingCommands s @ [commandId s + 1],
          outbox := outbox s @
            [(fst (hd (clients s)),
              JSON_stringify rt
                (JObj [(''id'', JNum (int (commandId s + 1))), (''method'', method), (''params'', ps)]))],
          timeouts := timeouts s @ [commandId s + 1]\<rparr>)"
  by (cases "clients s") (simp_all add: relay_def sendRaw_def Let_def)

lemma browser_default:
  assumes "getprop params ''action'' = JStr a" "a \<notin> set translation_table"
  shows "browser rt params s = relay rt (JStr a) (JObj (AList.delete ''action'' params)) ReturnReply s"
  using assms by (simp add: browser_def translation_table_def Let_def)


text \<open>
  Claim C7. For an action that is not a label of the \<^verbatim>\<open>switch\<close>, \<^verbatim>\<open>browser\<close> makes the
  one call \<^verbatim>\<open>sendRaw(action, rest)\<close>: with an agent registered, exactly one message goes
  out, to the first agent, carrying the action as its method and \<^verbatim>\<open>rest\<close> as its params,
  and the caller gets the reply to that command as it comes; with none registered the
  call fails as every command does then, not as an unknown action.
\<close>

theorem pass_through:
  "getprop params ''action'' = JStr a \<and> a \<notin> set translation_table \<longrightarrow>
     browser rt params s = relay rt (JStr a) (JObj (AList.delete ''action'' params)) ReturnReply s
     \<and> (clients s = [] \<longrightarrow>
           browser rt params s = (Throws (Error ''No browser extension connected''), s))
     \<and> (clients s \<noteq> [] \<longrightarrow>
           fst (browser rt params s) = AwaitsCommand (commandId s + 1) ReturnReply
           \<and> outbox (snd (browser rt params s)) =
               outbox s @
                 [(fst (hd (clients s)),
                   JSON_stringify rt
                     (JObj [(''id'', JNum (int (commandId s + 1))), (''method'', JStr a),
                            (''params'', JObj (AList.delete ''action'' params))]))]
           \<and> pendingCommands (snd (browser rt params s)) = pendingCommands s @ [commandId s + 1])
     \<and> resume rt ReturnReply reply fs = (reply, fs)"
proof
  assume h: "getprop params ''action'' = JStr a \<and> a \<notin> set translation_table"
  let ?rest = "AList.delete ''action'' params"
  have b: "browser rt params s = relay rt (JStr a) (JObj ?rest) ReturnReply s"
    using h by (simp add: browser_default)
  have r: "resume rt ReturnReply reply fs = (reply, fs)"
    by (cases reply) (simp_all add: resume_def)
  show "browser rt params s = relay rt (JStr a) (JObj ?rest) ReturnReply s
     \<and> (clients s = [] \<longrightarrow>
           browser rt params s = (Throws (Error ''No browser extension connected''), s))
     \<and> (clients s \<noteq> [] \<longrightarrow>
           fst (browser rt params s) = AwaitsCommand (commandId s + 1) ReturnReply
           \<and> outbox (snd (browser rt params s)) =
               outbox s @
                 [(fst (hd (clients s)),
                   JSON_stringify rt
                     (JObj [(''id'', JNum (int (commandId s + 1))), (''method'', JStr a),
                            (''params'', JObj ?rest)]))]
           \<and> pendingCommands (snd (browser rt params s)) = pendingCommands s @ [commandId s + 1])
     \<and> resume rt ReturnReply reply fs = (reply, fs)"
    using b r by (simp add: relay_no_client relay_client)
qed


theorem pass_through_witness:
  "getprop custom_command ''action'' = JStr ''Emulation.setDeviceMetricsOverride''
   \<and> ''Emulation.setDeviceMetricsOverride'' \<notin> set translation_table
   \<and> clients one_agent = [(1, JArr [JStr ''navigate''])]
   \<and> fst (browser reference custom_command one_agent) = AwaitsCommand 1 ReturnReply
   \<and> outbox (snd (browser reference custom_command one_agent)) =
        [(1, Some ''{\"id\":1,\"method\":\"Emulation.setDeviceMetricsOverride\",\"params\":{\"foo\":1}}'')]
   \<and> pendingCommands (snd (browser reference custom_command one_agent)) = [1]
   \<and> browser reference custom_command (new_CDPBridgeServer 9223) =
        (Throws (Error ''No browser extension connected''), new_CDPBridgeServer 9223)"
proof -
  have a: "getprop custom_command ''action'' = JStr ''Emulation.setDeviceMetricsOverride''"
    by code_simp
  have b: "''Emulation.setDeviceMetricsOverride'' \<notin> set translation_table"
    by code_simp
  have c: "clients one_agent = [(1, JArr [JStr ''navigate''])]" "commandId one_agent = 0"
    "outbox one_agent = []" "pendingCommands one_agent = []"
    by code_simp+
  have d: "JSON_stringify reference
             (JObj [(''id'', JNum 1), (''method'', JStr ''Emulation.setDeviceMetricsOverride''),
                    (''params'', JObj (AList.delete ''action'' custom_command))])
           = Some ''{\"id\":1,\"method\":\"Emulation.setDeviceMetricsOverride\",\"params\":{\"foo\":1}}''"
    by code_simp
  have e: "clients (new_CDPBridgeServer 9223) = []"
    by code_simp
  have ne: "clients one_agent \<noteq> []"
    using c by simp
  note T = pass_through [of custom_command "''Emulation.setDeviceMetricsOverride''" reference one_agent
      undefined undefined, THEN mp, OF conjI [OF a b]]
  note U = pass_through [of custom_command "''Emulation.setDeviceMetricsOverride''" reference
      "new_CDPBridgeServer 9223" undefined undefined, THEN mp, OF conjI [OF a b]]
  from T ne have
    "fst (browser reference custom_command one_agent) = AwaitsCommand (commandId one_agent + 1) ReturnReply
     \<and> outbox (snd (browser reference custom_command one_agent)) =
         outbox one_agent @
           [(fst (hd (clients one_agent)),
             JSON_stringify reference
               (JObj [(''id'', JNum (int (commandId one_agent + 1))),
                      (''method'', JStr ''Emulation.setDeviceMetricsOverride''),
                      (''params'', JObj (AList.delete ''action'' custom_command))]))]
     \<and> pendingCommands (snd (browser reference custom_command one_agent)) =
         pendingCommands one_agent @ [commandId one_agent + 1]"
    by blast
  then have 1:
    "fst (browser reference custom_command one_agent) = AwaitsCommand 1 ReturnReply
     \<and> outbox (snd (browser reference custom_command one_agent)) =
        [(1, Some ''{\"id\":1,\"method\":\"Emulation.setDeviceMetricsOverride\",\"params\":{\"foo\":1}}'')]
     \<and> pendingCommands (snd (browser reference custom_command one_agent)) = [1]"
    using c d by simp
  from U e have 2:
    "browser reference custom_command (new_CDPBridgeServer 9223) =
        (Throws (Error ''No browser extension connected''), new_CDPBridgeServer 9223)"
    by blast
  show ?thesis
    using a b c(1) 1 2 by blast
qed


text \<open>
  Claim C8, as stated, fails where the agent's reply has no result, or \<^verbatim>\<open>null\<close>: with a
  file name in the command, reading \<^verbatim>\<open>screenshot.data\<close> throws a \<^verbatim>\<open>TypeError\<close> and the
  reply is not returned.
\<close>

theorem screenshot_null_reply_counterexample:
  "truthy (getprop [(''format'', JStr ''png''), (''filename'', JStr ''out.png'')] ''filename'')
   \<and> replies (on_message reference 1 ''{\"id\":1,\"result\":null}''
                (snd (browser reference screenshot_command one_agent))) = [(1, Inr JNull)]
   \<and> js_member JNull ''data'' = JUndefined
   \<and> resume reference (SaveScreenshot [(''format'', JStr ''png''), (''filename'', JStr ''out.png'')])
        (Inr JNull) [] = (Inl TypeError, [])"
  by code_simp


text \<open>
  Claim C8, amended. A \<^verbatim>\<open>screenshot\<close> command sends \<^verbatim>\<open>hanzo.screenshot\<close> and touches no
  file before the reply. If the call fails, its error is thrown on and nothing is
  written. If it succeeds with base64 data, and the command has a file name, the decoded
  bytes are written to that file and \<^verbatim>\<open>{ saved: <filename>, bytes: <number of bytes> }\<close>
  is returned. Without a file name the reply is returned as it is, whatever it is; with a
  file name, a reply other than \<^verbatim>\<open>null\<close> or \<^verbatim>\<open>undefined\<close> that has no data is returned as
  it is.
\<close>

theorem screenshot_saved:
  "getprop params ''action'' = JStr ''screenshot'' \<longrightarrow>
     browser rt params s =
       relay rt (JStr ''hanzo.screenshot'')
         (JObj [(''format'', js_or (getprop (AList.delete ''action'' params) ''format'') (JStr ''png'')),
                (''fullPage'', getprop (AList.delete ''action'' params) ''fullPage'')])
         (SaveScreenshot (AList.delete ''action'' params)) s
     \<and> resume rt (SaveScreenshot rest) (Inl e) fs = (Inl e, fs)
     \<and> (truthy (getprop rest ''filename'') \<and> js_member screenshot ''data'' = JStr b \<and> b \<noteq> []
          \<and> Buffer_from_base64 rt (JStr b) = Inr buffer
          \<and> fs_writeFileSync rt fs (getprop rest ''filename'') buffer = Inr fs1 \<longrightarrow>
         resume rt (SaveScreenshot rest) (Inr screenshot) fs =
           (Inr (JObj [(''saved'', getprop rest ''filename''), (''bytes'', JNum (int (length buffer)))]),
            fs1))
     \<and> (\<not> truthy (getprop rest ''filename'') \<longrightarrow>
         resume rt (SaveScreenshot rest) (Inr screenshot) fs = (Inr screenshot, fs))
     \<and> (\<not> nullish screenshot \<and> \<not> truthy (js_member screenshot ''data'') \<longrightarrow>
         resume rt (SaveScreenshot rest) (Inr screenshot) fs = (Inr screenshot, fs))"
proof
  assume h: "getprop params ''action'' = JStr ''screenshot''"
  have 1: "browser rt params s =
       relay rt (JStr ''hanzo.screenshot'')
         (JObj [(''format'', js_or (getprop (AList.delete ''action'' params) ''format'') (JStr ''png'')),
                (''fullPage'', getprop (AList.delete ''action'' params) ''fullPage'')])
         (SaveScreenshot (AList.delete ''action'' params)) s"
    using h by (simp add: browser_def Let_def)
  have 2: "resume rt (SaveScreenshot rest) (Inl e) fs = (Inl e, fs)"
    by (simp add: resume_def)
  have 3: "resume rt (SaveScreenshot rest) (Inr screenshot) fs =
           (Inr (JObj [(''saved'', getprop rest ''filename''), (''bytes'', JNum (int (length buffer)))]),
            fs1)"
    if "truthy (getprop rest ''filename'') \<and> js_member screenshot ''data'' = JStr b \<and> b \<noteq> []
          \<and> Buffer_from_base64 rt (JStr b) = Inr buffer
          \<and> fs_writeFileSync rt fs (getprop rest ''filename'') buffer = Inr fs1"
  proof -
    from that have "\<not> nullish screenshot"
      by (cases screenshot) (simp_all add: js_member_def)
    with that show ?thesis
      by (simp add: resume_def js_get_def)
  qed
  have 4: "resume rt (SaveScreenshot rest) (Inr screenshot) fs = (Inr screenshot, fs)"
    if "\<not> truthy (getprop rest ''filename'')"
    using that by (simp add: resume_def)
  have 5: "resume rt (SaveScreenshot rest) (Inr screenshot) fs = (Inr screenshot, fs)"
    if "\<not> nullish screenshot \<and> \<not> truthy (js_member screenshot ''data'')"
    using that by (simp add: resume_def js_get_def)
  show "browser rt params s =
       relay rt (JStr ''hanzo.screenshot'')
         (JObj [(''format'', js_or (getprop (AList.delete ''action'' params) ''format'') (JStr ''png'')),
                (''fullPage'', getprop (AList.delete ''action'' params) ''fullPage'')])
         (SaveScreenshot (AList.delete ''action'' params)) s
     \<and> resume rt (SaveScreenshot rest) (Inl e) fs = (Inl e, fs)
     \<and> (truthy (getprop rest ''filename'') \<and> js_member screenshot ''data'' = JStr b \<and> b \<noteq> []
          \<and> Buffer_from_base64 rt (JStr b) = Inr buffer
          \<and> fs_writeFileSync rt fs (getprop rest ''filename'') buffer = Inr fs1 \<longrightarrow>
         resume rt (SaveScreenshot rest) (Inr screenshot) fs =
           (Inr (JObj [(''saved'', getprop rest ''filename''), (''bytes'', JNum (int (length buffer)))]),
            fs1))
     \<and> (\<not> truthy (getprop rest ''filename'') \<longrightarrow>
         resume rt (SaveScreenshot rest) (Inr screenshot) fs = (Inr screenshot, fs))
     \<and> (\<not> nullish screenshot \<and> \<not> truthy (js_member screenshot ''data'') \<longrightarrow>
         resume rt (SaveScreenshot rest) (Inr screenshot) fs = (Inr screenshot, fs))"
    using 1 2 3 4 5 by blast
qed


theorem screenshot_saved_witness:
  "fst (browser reference screenshot_command one_agent)
     = AwaitsCommand 1 (SaveScreenshot [(''format'', JStr ''png''), (''filename'', JStr ''out.png'')])
   \<and> outbox (snd (browser reference screenshot_command one_agent))
     = [(1, Some ''{\"id\":1,\"method\":\"hanzo.screenshot\",\"params\":{\"format\":\"png\"}}'')]
   \<and> resume reference (SaveScreenshot [(''format'', JStr ''png''), (''filename'', JStr ''out.png'')])
        (Inl (Error ''Command timeout'')) [] = (Inl (Error ''Command timeout''), [])
   \<and> resume reference (SaveScreenshot [(''format'', JStr ''png''), (''filename'', JStr ''out.png'')])
        (Inr screenshot_reply) []
      = (Inr (JObj [(''saved'', JStr ''out.png''), (''bytes'', JNum 2)]), [(''out.png'', [104, 105])])
   \<and> resume reference (SaveScreenshot [(''format'', JStr ''png'')]) (Inr screenshot_reply) []
      = (Inr screenshot_reply, [])
   \<and> resume reference (SaveScreenshot [(''format'', JStr ''png''), (''filename'', JStr ''out.png'')])
        (Inr (JObj [(''ok'', JBool True)])) []
      = (Inr (JObj [(''ok'', JBool True)]), [])"
proof -
  let ?rest = "[(''format'', JStr ''png''), (''filename'', JStr ''out.png'')]"
  have a: "getprop screenshot_command ''action'' = JStr ''screenshot''"
    "AList.delete ''action'' screenshot_command = ?rest"
    by code_simp+
  have b: "relay reference (JStr ''hanzo.screenshot'')
             (JObj [(''format'', js_or (getprop ?rest ''format'') (JStr ''png'')),
                    (''fullPage'', getprop ?rest ''fullPage'')])
             (SaveScreenshot ?rest) one_agent
           = (AwaitsCommand 1 (SaveScreenshot ?rest),
              one_agent\<lparr>commandId := 1, pendingCommands := [1],
                outbox := [(1, Some ''{\"id\":1,\"method\":\"hanzo.screenshot\",\"params\":{\"format\":\"png\"}}'')],
                timeouts := [1]\<rparr>)"
    by code_simp
  have c: "truthy (getprop ?rest ''filename'') \<and> js_member screenshot_reply ''data'' = JStr ''aGk='' \<and> ''aGk='' \<noteq> []
          \<and> Buffer_from_base64 reference (JStr ''aGk='') = Inr [104, 105]
          \<and> fs_writeFileSync reference [] (getprop ?rest ''filename'') [104, 105] = Inr [(''out.png'', [104, 105])]"
    by code_simp
  have d: "\<not> truthy (getprop [(''format'', JStr ''png'')] ''filename'')"
    by code_simp
  have e: "\<not> nullish (JObj [(''ok'', JBool True)]) \<and> \<not> truthy (js_member (JObj [(''ok'', JBool True)]) ''data'')"
    by code_simp
  have f: "getprop ?rest ''filename'' = JStr ''out.png''"
    by code_simp
  note 1 = screenshot_saved [of screenshot_command reference one_agent ?rest "Error ''Command timeout''" "[]"
      screenshot_reply "''aGk=''" "[104, 105]" "[(''out.png'', [104, 105])]"]
  note 2 = screenshot_saved [of screenshot_command reference one_agent "[(''format'', JStr ''png'')]" undefined "[]"
      screenshot_reply undefined undefined undefined]
  note 3 = screenshot_saved [of screenshot_command reference one_agent ?rest undefined "[]"
      "JObj [(''ok'', JBool True)]" undefined undefined undefined]
  show ?thesis
    using a b c d e f 1 2 3 by simp
qed



end
